theory Spec2Isabelle
  imports Complex_Main
begin

section \<open>Shared helpers of the JavaScript runtime\<close>

text \<open>
  \<^verbatim>\<open>Array.prototype.join(sep)\<close> on an array of strings.
\<close>

fun join_with :: "string \<Rightarrow> string list \<Rightarrow> string" where
  "join_with sep [] = []"
| "join_with sep [x] = x"
| "join_with sep (x # y # ys) = x @ sep @ join_with sep (y # ys)"

text \<open>
  Decimal rendering of an integer, as a template literal renders a JavaScript number
  that holds an integer (below the range where exponent notation starts).
\<close>

definition digit_char :: "nat \<Rightarrow> char" where
  "digit_char d = ''0123456789'' ! (d mod 10)"

fun show_nat :: "nat \<Rightarrow> string" where
  "show_nat n = (if n < 10 then [digit_char n] else show_nat (n div 10) @ [digit_char (n mod 10)])"

declare show_nat.simps [simp del]

definition show_int :: "int \<Rightarrow> string" where
  "show_int i = (if i < 0 then ''-'' @ show_nat (nat (- i)) else show_nat (nat i))"

section \<open>types.ts: the data model\<close>

text \<open>
  A JavaScript value as it arrives in a tool call's arguments (\<^verbatim>\<open>unknown\<close> in the
  source). A number is a real number: every finite double is one.
\<close>

datatype jsval =
    JUndefined
  | JNull
  | JBool bool
  | JNum real
  | JStr string
  | JArr "jsval list"
  | JObj "(string \<times> jsval) list"

text \<open>
  \<^verbatim>\<open>interface ToolExecutor { type; code?; file?; timeout? }\<close>. The fields carry the
  prefix \<open>ex_\<close> (\<open>file\<close> is a keyword of Isabelle). \<open>ex_type\<close> is a string: the
  executor compares it at run time and has a branch for any other value. An optional
  field that is not set is \<open>None\<close>.
\<close>

record ToolExecutor =
  ex_type :: string
  ex_code :: "string option"
  ex_file :: "string option"
  ex_timeout :: "int option"

record PropertySchema =
  prop_type :: string
  prop_description :: "string option"
  prop_default :: "jsval option"
  prop_enum :: "jsval list option"

record ParametersSchema =
  par_properties :: "(string \<times> PropertySchema) list option"
  par_required :: "string list option"

text \<open>\<^verbatim>\<open>interface ToolDefinition { name; description; parameters?; executor }\<close>\<close>

record ToolDefinition =
  tool_name :: string
  tool_description :: string
  tool_parameters :: "ParametersSchema option"
  tool_executor :: ToolExecutor

text \<open>\<^verbatim>\<open>interface ToolsConfig { version; tools }\<close>\<close>

record ToolsConfig =
  cfg_version :: string
  cfg_tools :: "ToolDefinition list"

text \<open>\<^verbatim>\<open>interface ExecutionResult { success; stdout; stderr; exitCode; error? }\<close>\<close>

record ExecutionResult =
  res_success :: bool
  res_stdout :: string
  res_stderr :: string
  res_exitCode :: int
  res_error :: "string option"

section \<open>registry.ts: the tool registry\<close>

text \<open>
  \<^verbatim>\<open>private tools: Map<string, ToolDefinition>\<close>. A JavaScript \<open>Map\<close> iterates in
  insertion order and \<open>set\<close> on a key that is present replaces the value where the key
  stands; so the map is a list of pairs, oldest key first.
\<close>

type_synonym ToolRegistry = "(string \<times> ToolDefinition) list"

primrec Map_set :: "'k \<Rightarrow> 'v \<Rightarrow> ('k \<times> 'v) list \<Rightarrow> ('k \<times> 'v) list" where
  "Map_set k v [] = [(k, v)]"
| "Map_set k v (p # ps) = (if fst p = k then (k, v) # ps else p # Map_set k v ps)"

definition Map_get :: "('k \<times> 'v) list \<Rightarrow> 'k \<Rightarrow> 'v option" where
  "Map_get m k = map_of m k"

definition Map_keys :: "('k \<times> 'v) list \<Rightarrow> 'k list" where
  "Map_keys m = map fst m"

definition Map_values :: "('k \<times> 'v) list \<Rightarrow> 'v list" where
  "Map_values m = map snd m"

text \<open>
  What the registry does beside changing its map: a line on \<^verbatim>\<open>console.error\<close>
  (the diff of added, removed and updated names is reported there) or an
  \<^verbatim>\<open>'update'\<close> event with its payload.
\<close>

datatype registry_effect =
    ConsoleError string
  | EmitUpdate "ToolDefinition list"

definition getTools :: "ToolRegistry \<Rightarrow> ToolDefinition list" where
  "getTools reg = Map_values reg"

definition getTool :: "ToolRegistry \<Rightarrow> string \<Rightarrow> ToolDefinition option" where
  "getTool reg name = Map_get reg name"

definition hasTool :: "ToolRegistry \<Rightarrow> string \<Rightarrow> bool" where
  "hasTool reg name = (name \<in> set (Map_keys reg))"

text \<open>The loop \<^verbatim>\<open>for (const tool of config.tools) this.tools.set(tool.name, tool)\<close>.\<close>

fun populate :: "ToolRegistry \<Rightarrow> ToolDefinition list \<Rightarrow> ToolRegistry" where
  "populate reg [] = reg"
| "populate reg (tool # rest) = populate (Map_set (tool_name tool) tool reg) rest"

text \<open>
  The three name lists of \<^verbatim>\<open>updateFromConfig\<close>, computed against the keys the map
  held before it was cleared.
\<close>

definition diff_added :: "string list \<Rightarrow> ToolsConfig \<Rightarrow> ToolDefinition list" where
  "diff_added oldTools config = filter (\<lambda>t. tool_name t \<notin> set oldTools) (cfg_tools config)"

definition diff_removed :: "string list \<Rightarrow> ToolsConfig \<Rightarrow> string list" where
  "diff_removed oldTools config =
     filter (\<lambda>name. name \<notin> set (map tool_name (cfg_tools config))) oldTools"

definition diff_updated :: "string list \<Rightarrow> ToolsConfig \<Rightarrow> ToolDefinition list" where
  "diff_updated oldTools config = filter (\<lambda>t. tool_name t \<in> set oldTools) (cfg_tools config)"

definition updateFromConfig ::
  "ToolsConfig \<Rightarrow> ToolRegistry \<Rightarrow> ToolRegistry \<times> registry_effect list" where
  "updateFromConfig config reg =
     (let oldTools = Map_keys reg;
          reg' = populate [] (cfg_tools config);
          added = diff_added oldTools config;
          removed = diff_removed oldTools config;
          updated = diff_updated oldTools config
      in (reg',
          (if length added > 0
           then [ConsoleError (''[registry] Added tools: '' @ join_with '', '' (map tool_name added))]
           else [])
          @ (if length removed > 0
             then [ConsoleError (''[registry] Removed tools: '' @ join_with '', '' removed)]
             else [])
          @ (if length updated > 0
             then [ConsoleError
                     (''[registry] Updated tools: '' @ join_with '', '' (map tool_name updated))]
             else [])
          @ [EmitUpdate (getTools reg')]))"

definition clear :: "ToolRegistry \<Rightarrow> ToolRegistry \<times> registry_effect list" where
  "clear reg =
     (let hadTools = (length reg > 0)
      in ([], if hadTools then [ConsoleError ''[registry] Cleared all tools'', EmitUpdate []]
              else []))"

text \<open>The \<^verbatim>\<open>'update'\<close> events among the effects of a call.\<close>

fun update_events :: "registry_effect list \<Rightarrow> ToolDefinition list list" where
  "update_events [] = []"
| "update_events (ConsoleError s # es) = update_events es"
| "update_events (EmitUpdate ts # es) = ts # update_events es"

text \<open>The last definition of a name in a declared sequence of tools.\<close>

definition last_named :: "string \<Rightarrow> ToolDefinition list \<Rightarrow> ToolDefinition option" where
  "last_named n ts = find (\<lambda>t. tool_name t = n) (rev ts)"

section \<open>executor.ts: the execution engine\<close>

definition DEFAULT_TIMEOUT :: int where
  "DEFAULT_TIMEOUT = 30000"

subsection \<open>Built-in functions of the runtime\<close>

text \<open>
  Two built-in functions the engine calls are not code of the repository and are taken
  as they come: \<^verbatim>\<open>String.prototype.toUpperCase\<close>, and the string of a number, which
  \<^verbatim>\<open>String(n)\<close> and a template literal both give.
\<close>

record builtins =
  toUpperCase :: "string \<Rightarrow> string"
  Number_toString :: "real \<Rightarrow> string"

subsection \<open>The child environment (lines 31 to 44)\<close>

text \<open>
  \<^verbatim>\<open>String(v)\<close>, which can throw (on the left, the message of the \<open>TypeError\<close>). An
  array is its elements joined by commas, \<open>null\<close> and \<open>undefined\<close> elements as the
  empty string. An object that came from JSON inherits \<^verbatim>\<open>Object.prototype.toString\<close>
  and is \<^verbatim>\<open>[object Object]\<close>, unless it has a property \<open>toString\<close> of its own: that
  one is no function, \<^verbatim>\<open>valueOf\<close> gives no primitive either, and the conversion throws.
\<close>

definition cannot_convert :: string where
  "cannot_convert = ''Cannot convert object to primitive value''"

fun js_String :: "builtins \<Rightarrow> jsval \<Rightarrow> string + string"
  and js_elements :: "builtins \<Rightarrow> jsval list \<Rightarrow> string + string list" where
  "js_String js JUndefined = Inr ''undefined''"
| "js_String js JNull = Inr ''null''"
| "js_String js (JBool b) = Inr (if b then ''true'' else ''false'')"
| "js_String js (JNum x) = Inr (Number_toString js x)"
| "js_String js (JStr s) = Inr s"
| "js_String js (JArr xs) =
     (case js_elements js xs of Inl err \<Rightarrow> Inl err | Inr ss \<Rightarrow> Inr (join_with '','' ss))"
| "js_String js (JObj kvs) =
     (if ''toString'' \<in> set (map fst kvs) then Inl cannot_convert
      else Inr ''[object Object]'')"
| "js_elements js [] = Inr []"
| "js_elements js (x # xs) =
     (case (if x = JUndefined \<or> x = JNull then Inr [] else js_String js x) of
        Inl err \<Rightarrow> Inl err
      | Inr s \<Rightarrow>
          (case js_elements js xs of Inl err \<Rightarrow> Inl err | Inr ss \<Rightarrow> Inr (s # ss)))"

text \<open>\<^verbatim>\<open>v ?? d\<close>\<close>

definition nullish_or :: "jsval \<Rightarrow> jsval \<Rightarrow> jsval" where
  "nullish_or v d = (if v = JUndefined \<or> v = JNull then d else v)"

text \<open>\<^verbatim>\<open>String(value ?? '')\<close>\<close>

definition param_string :: "builtins \<Rightarrow> jsval \<Rightarrow> string + string" where
  "param_string js v = js_String js (nullish_or v (JStr []))"

text \<open>
  The object \<^verbatim>\<open>env\<close>: its own properties, by name.
\<close>

type_synonym env = "string \<rightharpoonup> string"

text \<open>
  The object literal \<^verbatim>\<open>{ ...process.env, PROJECT_ROOT, MCP_TOOLS_DIR, TOOL_NAME }\<close>: a
  later key of the literal replaces an earlier one.
\<close>

definition base_env :: "env \<Rightarrow> string \<Rightarrow> string \<Rightarrow> string \<Rightarrow> env" where
  "base_env process_env projectRoot mcpDir toolName =
     process_env(''PROJECT_ROOT'' \<mapsto> projectRoot,
                 ''MCP_TOOLS_DIR'' \<mapsto> mcpDir,
                 ''TOOL_NAME'' \<mapsto> toolName)"

text \<open>
  The assignment \<^verbatim>\<open>env[key] = s\<close> of a string. It writes the property, except for the
  key \<^verbatim>\<open>__proto__\<close> on an object that has no property of that name of its own: there
  the assignment reaches the setter that \<^verbatim>\<open>Object.prototype\<close> has for the name, which
  ignores a value that is a string, and \<^verbatim>\<open>env\<close> stays as it is.
\<close>

definition assign :: "env \<Rightarrow> string \<Rightarrow> string \<Rightarrow> env" where
  "assign e key s = (if key = ''__proto__'' \<and> e ''__proto__'' = None then e else e(key \<mapsto> s))"

text \<open>
  The loop over \<^verbatim>\<open>Object.entries(params)\<close>: the entries of the arguments object in
  its own order, each key once. \<^verbatim>\<open>String(value ?? '')\<close> stands twice in the body and
  gives the same both times; when it throws, the loop ends with the error.
\<close>

fun add_params :: "builtins \<Rightarrow> env \<Rightarrow> (string \<times> jsval) list \<Rightarrow> string + env" where
  "add_params js e [] = Inr e"
| "add_params js e ((key, v) # rest) =
     (case param_string js v of
        Inl err \<Rightarrow> Inl err
      | Inr s \<Rightarrow>
          add_params js (assign (assign e (''PARAM_'' @ toUpperCase js key) s) key s) rest)"

definition child_env ::
  "builtins \<Rightarrow> env \<Rightarrow> string \<Rightarrow> string \<Rightarrow> string \<Rightarrow> (string \<times> jsval) list \<Rightarrow> string + env"
  where
  "child_env js process_env projectRoot mcpDir toolName params =
     add_params js (base_env process_env projectRoot mcpDir toolName) params"

text \<open>
  The overlays in the order the specification lists them: the three fixed variables,
  then for each parameter its \<open>PARAM_\<close> entry and its bare entry, each with the string of
  the value (the empty string stands where the conversion throws).
\<close>

definition string_of_param :: "builtins \<Rightarrow> jsval \<Rightarrow> string" where
  "string_of_param js v = (case param_string js v of Inr s \<Rightarrow> s | Inl err \<Rightarrow> [])"

definition param_overlays :: "builtins \<Rightarrow> (string \<times> jsval) list \<Rightarrow> (string \<times> string) list" where
  "param_overlays js params =
     concat (map (\<lambda>(key, v). [(''PARAM_'' @ toUpperCase js key, string_of_param js v),
                               (key, string_of_param js v)]) params)"

definition overlays ::
  "builtins \<Rightarrow> string \<Rightarrow> string \<Rightarrow> string \<Rightarrow> (string \<times> jsval) list \<Rightarrow> (string \<times> string) list"
  where
  "overlays js projectRoot mcpDir toolName params =
     [(''PROJECT_ROOT'', projectRoot), (''MCP_TOOLS_DIR'', mcpDir), (''TOOL_NAME'', toolName)]
     @ param_overlays js params"

text \<open>Overlaying a list of bindings on an environment, a later binding winning.\<close>

definition overlay :: "env \<Rightarrow> (string \<times> string) list \<Rightarrow> env" where
  "overlay e bs = e ++ map_of (rev bs)"

text \<open>
  Parameters the loop exports in full: no key is \<^verbatim>\<open>__proto__\<close> and every value has a
  string.
\<close>

definition exportable :: "builtins \<Rightarrow> (string \<times> jsval) list \<Rightarrow> bool" where
  "exportable js params =
     list_all (\<lambda>p. fst p \<noteq> ''__proto__'' \<and> \<not> isl (param_string js (snd p))) params"

subsection \<open>The platform the engine runs on\<close>

text \<open>
  What the child process makes Node deliver to the handlers the engine registers:
  chunks on the two pipes, the \<^verbatim>\<open>'error'\<close> event with the error's message, the
  \<^verbatim>\<open>'close'\<close> event with the exit code (\<open>None\<close> is \<open>null\<close>: the process ended by a
  signal).
\<close>

datatype proc_event =
    StdoutData string
  | StderrData string
  | ErrorEvent string
  | CloseEvent "int option"

text \<open>
  A child process as the engine can observe it: the events it causes when left alone,
  each with the time in milliseconds since the spawn, and the events it causes once
  the timeout callback has signalled it.
\<close>

record child_process =
  proc_timeline :: "(nat \<times> proc_event) list"
  proc_after_kill :: "proc_event list"

text \<open>
  A path as \<^verbatim>\<open>existsSync\<close> and \<^verbatim>\<open>readFile\<close> find it: nothing there, something
  that exists and cannot be read as a file (a directory, a file without read
  permission; \<^verbatim>\<open>readFile\<close> rejects with the message), or a file with its contents.
\<close>

datatype fs_entry =
    NoEntry
  | Unreadable string
  | FileContents string

text \<open>
  \<open>pf_spawn\<close> is \<^verbatim>\<open>spawn(command, args, {env, cwd, stdio})\<close> with the setting up of
  the handlers: a child process, or on the left the message of the error thrown before
  the handlers stand. \<^verbatim>\<open>spawn\<close> throws when an argument or a string of the environment
  holds a NUL byte, and on an error of the operating system that it does not report
  through the \<^verbatim>\<open>'error'\<close> event.
\<close>

record platform =
  pf_js :: builtins
  pf_env :: env
  pf_join :: "string \<Rightarrow> string \<Rightarrow> string"
  pf_fs :: "string \<Rightarrow> fs_entry"
  pf_spawn :: "string \<Rightarrow> string list \<Rightarrow> env \<Rightarrow> string \<Rightarrow> string + child_process"

text \<open>
  The delay Node gives a timer: \<^verbatim>\<open>setTimeout(callback, delay)\<close> sets the delay to 1
  when it is less than 1 or larger than 2147483647.
\<close>

definition setTimeout_delay :: "int \<Rightarrow> nat" where
  "setTimeout_delay delay = (if delay < 1 \<or> delay > 2147483647 then 1 else nat delay)"

text \<open>How a promise returned to the caller ends.\<close>

datatype outcome =
    Resolved ExecutionResult
  | Rejected string
  | Pending

subsection \<open>executeBash and executePython (lines 91 to 228)\<close>

text \<open>
  The variables of the promise's executor: the two buffers, the flag \<open>killed\<close>, the
  timeout timer (pending or not), the signals sent with \<^verbatim>\<open>proc.kill\<close>, and the value
  the promise was resolved with, if it was.
\<close>

record run_state =
  rs_stdout :: string
  rs_stderr :: string
  rs_killed :: bool
  rs_timer :: bool
  rs_signals :: "string list"
  rs_resolved :: "ExecutionResult option"

definition initial_run_state :: run_state where
  "initial_run_state =
     \<lparr>rs_stdout = [], rs_stderr = [], rs_killed = False, rs_timer = True,
      rs_signals = [], rs_resolved = None\<rparr>"

text \<open>\<^verbatim>\<open>resolve(value)\<close>: only the first call settles a promise.\<close>

definition resolve :: "ExecutionResult \<Rightarrow> run_state \<Rightarrow> run_state" where
  "resolve r st = (case rs_resolved st of None \<Rightarrow> st\<lparr>rs_resolved := Some r\<rparr> | Some _ \<Rightarrow> st)"

definition clearTimeout :: "run_state \<Rightarrow> run_state" where
  "clearTimeout st = st\<lparr>rs_timer := False\<rparr>"

text \<open>
  The callback of the timeout timer. The timer it starts in turn sends \<open>SIGKILL\<close> a
  second later when \<^verbatim>\<open>proc.killed\<close> is still false; what the process does under the
  signals is \<open>proc_after_kill\<close>.
\<close>

definition on_timeout :: "run_state \<Rightarrow> run_state" where
  "on_timeout st =
     st\<lparr>rs_killed := True, rs_timer := False, rs_signals := rs_signals st @ [''SIGTERM'']\<rparr>"

text \<open>\<^verbatim>\<open>`Execution timed out after ${timeout}ms`\<close> and \<^verbatim>\<open>`Failed to spawn bash: ${err.message}`\<close>\<close>

definition timeout_message :: "builtins \<Rightarrow> int \<Rightarrow> string" where
  "timeout_message js timeout =
     ''Execution timed out after '' @ Number_toString js (of_int timeout) @ ''ms''"

definition spawn_message :: "string \<Rightarrow> string \<Rightarrow> string" where
  "spawn_message interp msg = ''Failed to spawn '' @ interp @ '': '' @ msg"

text \<open>
  The four handlers. \<open>interp\<close> is the interpreter's name, the one place where
  \<^verbatim>\<open>executeBash\<close> and \<^verbatim>\<open>executePython\<close> differ.
\<close>

fun on_event :: "builtins \<Rightarrow> string \<Rightarrow> int \<Rightarrow> run_state \<Rightarrow> proc_event \<Rightarrow> run_state" where
  "on_event js interp timeout st (StdoutData d) = st\<lparr>rs_stdout := rs_stdout st @ d\<rparr>"
| "on_event js interp timeout st (StderrData d) = st\<lparr>rs_stderr := rs_stderr st @ d\<rparr>"
| "on_event js interp timeout st (ErrorEvent msg) =
     resolve \<lparr>res_success = False, res_stdout = rs_stdout st, res_stderr = rs_stderr st,
              res_exitCode = 1, res_error = Some (spawn_message interp msg)\<rparr>
             (clearTimeout st)"
| "on_event js interp timeout st (CloseEvent exitCode) =
     (if rs_killed st
      then resolve \<lparr>res_success = False, res_stdout = rs_stdout st, res_stderr = rs_stderr st,
                    res_exitCode = (case exitCode of Some c \<Rightarrow> c | None \<Rightarrow> 1),
                    res_error = Some (timeout_message js timeout)\<rparr>
                   (clearTimeout st)
      else resolve \<lparr>res_success = (exitCode = Some 0), res_stdout = rs_stdout st,
                    res_stderr = rs_stderr st,
                    res_exitCode = (case exitCode of Some c \<Rightarrow> c | None \<Rightarrow> 0),
                    res_error = None\<rparr>
                   (clearTimeout st))"

text \<open>
  Node's event loop for one child: the process's events are handled in order; when the
  timer is still pending at its delay, its callback runs (before an event of the same
  millisecond) and the process, signalled, causes the events of \<open>proc_after_kill\<close>.
\<close>

fun event_loop ::
  "builtins \<Rightarrow> string \<Rightarrow> int \<Rightarrow> nat \<Rightarrow> proc_event list \<Rightarrow> (nat \<times> proc_event) list
     \<Rightarrow> run_state \<Rightarrow> run_state"
  where
  "event_loop js interp timeout delay after [] st =
     (if rs_timer st then foldl (on_event js interp timeout) (on_timeout st) after else st)"
| "event_loop js interp timeout delay after ((t, e) # rest) st =
     (if rs_timer st \<and> delay \<le> t
      then foldl (on_event js interp timeout) (on_timeout st) after
      else event_loop js interp timeout delay after rest (on_event js interp timeout st e))"

text \<open>
  The handlers at work on a child that \<^verbatim>\<open>spawn\<close> returned: the timer is armed with
  \<^verbatim>\<open>setTimeout(..., timeout)\<close> and the handlers run on what the process causes.
\<close>

definition run_proc :: "builtins \<Rightarrow> string \<Rightarrow> int \<Rightarrow> child_process \<Rightarrow> run_state" where
  "run_proc js interp timeout proc =
     event_loop js interp timeout (setTimeout_delay timeout)
       (proc_after_kill proc) (proc_timeline proc) initial_run_state"

text \<open>
  For stating what a run returns: the output a sequence of events carries on each
  pipe, sequences that hold output only, and timed sequences that lie before a delay.
\<close>

fun out_of :: "proc_event list \<Rightarrow> string" where
  "out_of [] = []"
| "out_of (StdoutData d # es) = d @ out_of es"
| "out_of (e # es) = out_of es"

fun err_of :: "proc_event list \<Rightarrow> string" where
  "err_of [] = []"
| "err_of (StderrData d # es) = d @ err_of es"
| "err_of (e # es) = err_of es"

fun is_data :: "proc_event \<Rightarrow> bool" where
  "is_data (StdoutData d) = True"
| "is_data (StderrData d) = True"
| "is_data e = False"

definition data_only :: "proc_event list \<Rightarrow> bool" where
  "data_only es = list_all is_data es"

definition before :: "nat \<Rightarrow> (nat \<times> proc_event) list \<Rightarrow> bool" where
  "before delay tes = list_all (\<lambda>p. fst p < delay) tes"

text \<open>The timer fires before the process does anything more.\<close>

definition not_before :: "nat \<Rightarrow> (nat \<times> proc_event) list \<Rightarrow> bool" where
  "not_before delay tes = (case tes of [] \<Rightarrow> True | p # _ \<Rightarrow> delay \<le> fst p)"

definition promise_of :: "run_state \<Rightarrow> outcome" where
  "promise_of st = (case rs_resolved st of Some r \<Rightarrow> Resolved r | None \<Rightarrow> Pending)"

text \<open>
  The promise of one interpreter: an error thrown in the promise's executor, before the
  handlers stand, rejects it; after that only \<^verbatim>\<open>resolve\<close> is called.
\<close>

definition run_interpreter ::
  "platform \<Rightarrow> string \<Rightarrow> string \<Rightarrow> env \<Rightarrow> int \<Rightarrow> string \<Rightarrow> outcome" where
  "run_interpreter pf interp code env timeout cwd =
     (case pf_spawn pf interp [''-c'', code] env cwd of
        Inl err \<Rightarrow> Rejected err
      | Inr proc \<Rightarrow> promise_of (run_proc (pf_js pf) interp timeout proc))"

definition executeBash :: "platform \<Rightarrow> string \<Rightarrow> env \<Rightarrow> int \<Rightarrow> string \<Rightarrow> outcome" where
  "executeBash pf code env timeout cwd = run_interpreter pf ''bash'' code env timeout cwd"

definition executePython :: "platform \<Rightarrow> string \<Rightarrow> env \<Rightarrow> int \<Rightarrow> string \<Rightarrow> outcome" where
  "executePython pf code env timeout cwd = run_interpreter pf ''python3'' code env timeout cwd"

subsection \<open>executeCommand (lines 22 to 86)\<close>

text \<open>
  The value of an optional string when \<^verbatim>\<open>if (s)\<close> takes it as true: \<open>undefined\<close> and
  the empty string are both false.
\<close>

definition truthy :: "string option \<Rightarrow> string option" where
  "truthy s = (case s of None \<Rightarrow> None | Some x \<Rightarrow> if x = [] then None else Some x)"

definition failure :: "string \<Rightarrow> ExecutionResult" where
  "failure msg =
     \<lparr>res_success = False, res_stdout = [], res_stderr = [], res_exitCode = 1,
      res_error = Some msg\<rparr>"

text \<open>
  ``Get code to execute'' (lines 46 to 70): the code, or the way the call ends early.
  \<^verbatim>\<open>await readFile\<close> is not inside a \<^verbatim>\<open>try\<close>: when it rejects, so does the promise of
  \<^verbatim>\<open>executeCommand\<close>.
\<close>

definition no_source_message :: string where
  \<open>no_source_message = ''Executor must have either "code" or "file" property''\<close>

definition get_code :: "platform \<Rightarrow> ToolExecutor \<Rightarrow> string \<Rightarrow> outcome + string" where
  "get_code pf executor mcpDir =
     (case truthy (ex_code executor) of
        Some code \<Rightarrow> Inr code
      | None \<Rightarrow>
          (case truthy (ex_file executor) of
             Some file \<Rightarrow>
               (let scriptPath = pf_join pf mcpDir file
                in case pf_fs pf scriptPath of
                     NoEntry \<Rightarrow>
                       Inl (Resolved (failure (''Script file not found: '' @ scriptPath)))
                   | Unreadable err \<Rightarrow> Inl (Rejected err)
                   | FileContents contents \<Rightarrow> Inr contents)
           | None \<Rightarrow>
               Inl (Resolved
                      (failure no_source_message))))"

text \<open>``Execute based on type'' (lines 72 to 85).\<close>

definition run_by_type ::
  "platform \<Rightarrow> ToolExecutor \<Rightarrow> string \<Rightarrow> env \<Rightarrow> int \<Rightarrow> string \<Rightarrow> outcome" where
  "run_by_type pf executor code env timeout projectRoot =
     (if ex_type executor = ''bash'' then executeBash pf code env timeout projectRoot
      else if ex_type executor = ''python'' then executePython pf code env timeout projectRoot
      else Resolved (failure (''Unknown executor type: '' @ ex_type executor)))"

definition resolve_timeout :: "ToolExecutor \<Rightarrow> int" where
  "resolve_timeout executor =
     (case ex_timeout executor of Some t \<Rightarrow> t | None \<Rightarrow> DEFAULT_TIMEOUT)"

text \<open>
  The function is \<^verbatim>\<open>async\<close> and holds no \<^verbatim>\<open>try\<close>: an error thrown while the
  environment is built rejects its promise, before the code is looked for.
\<close>

definition executeCommand ::
  "platform \<Rightarrow> ToolExecutor \<Rightarrow> (string \<times> jsval) list \<Rightarrow> string \<Rightarrow> string \<Rightarrow> string \<Rightarrow> outcome"
  where
  "executeCommand pf executor params projectRoot mcpDir toolName =
     (let timeout = resolve_timeout executor
      in case child_env (pf_js pf) (pf_env pf) projectRoot mcpDir toolName params of
           Inl err \<Rightarrow> Rejected err
         | Inr env \<Rightarrow>
             (case get_code pf executor mcpDir of
                Inl early \<Rightarrow> early
              | Inr code \<Rightarrow> run_by_type pf executor code env timeout projectRoot))"

text \<open>For stating what \<^verbatim>\<open>executeCommand\<close> spawns: the interpreter of an executor type.\<close>

definition interpreter :: "ToolExecutor \<Rightarrow> string" where
  "interpreter executor = (if ex_type executor = ''bash'' then ''bash'' else ''python3'')"

section \<open>parser.ts: loading and validating tools.json\<close>

text \<open>
  What the file-system calls of one handler find at the path of \<^verbatim>\<open>tools.json\<close>:
  \<^verbatim>\<open>existsSync\<close>, \<^verbatim>\<open>stat().mtimeMs\<close> (\<open>None\<close> when \<^verbatim>\<open>stat\<close> throws) and
  \<^verbatim>\<open>readFile\<close> (the contents, or on the left the message of the error it throws).
\<close>

record file_view =
  fv_exists :: bool
  fv_mtime :: "real option"
  fv_read :: "string + string"

text \<open>An entry of \<^verbatim>\<open>validate.errors\<close>: both fields are optional in the source.\<close>

record validation_error =
  ve_instancePath :: "string option"
  ve_message :: "string option"

text \<open>
  The parts of the loader that are not this repository's code: \<^verbatim>\<open>JSON.parse\<close> (on the
  left the message of the error it throws), the validator that Ajv compiles from the
  schema (its verdict and its \<^verbatim>\<open>errors\<close> property), and the typed view of a value
  that passed (\<^verbatim>\<open>parsed as ToolsConfig\<close>).
\<close>

record json_host =
  JSON_parse :: "string \<Rightarrow> string + jsval"
  validate :: "jsval \<Rightarrow> bool \<times> validation_error list option"
  as_ToolsConfig :: "jsval \<Rightarrow> ToolsConfig"

text \<open>\<^verbatim>\<open>interface ParseResult { success; config?; errors? }\<close>\<close>

record ParseResult =
  pr_success :: bool
  pr_config :: "ToolsConfig option"
  pr_errors :: "string list option"

text \<open>\<^verbatim>\<open>`${err.instancePath || '/'}: ${err.message}`\<close>\<close>

definition validation_message :: "validation_error \<Rightarrow> string" where
  "validation_message err =
     (case truthy (ve_instancePath err) of Some path \<Rightarrow> path | None \<Rightarrow> ''/'')
     @ '': '' @ (case ve_message err of Some m \<Rightarrow> m | None \<Rightarrow> ''undefined'')"

definition parseToolsJson :: "json_host \<Rightarrow> file_view \<Rightarrow> string \<Rightarrow> ParseResult" where
  "parseToolsJson host fv toolsJsonPath =
     (if \<not> fv_exists fv
      then \<lparr>pr_success = False, pr_config = None,
            pr_errors = Some [''File not found: '' @ toolsJsonPath]\<rparr>
      else case fv_read fv of
        Inl err \<Rightarrow>
          \<lparr>pr_success = False, pr_config = None,
           pr_errors = Some [''Failed to read file: '' @ err]\<rparr>
      | Inr content \<Rightarrow>
          (case JSON_parse host content of
             Inl err \<Rightarrow>
               \<lparr>pr_success = False, pr_config = None,
                pr_errors = Some [''Invalid JSON: '' @ err]\<rparr>
           | Inr parsed \<Rightarrow>
               (let (valid, errs) = validate host parsed
                in if \<not> valid
                   then \<lparr>pr_success = False, pr_config = None,
                         pr_errors =
                           Some (case errs of
                                   Some es \<Rightarrow> map validation_message es
                                 | None \<Rightarrow> [''Unknown validation error''])\<rparr>
                   else \<lparr>pr_success = True, pr_config = Some (as_ToolsConfig host parsed),
                         pr_errors = None\<rparr>)))"

section \<open>watcher.ts: the watcher of tools.json\<close>

text \<open>
  The two fields of \<^verbatim>\<open>ToolsWatcher\<close> that its handlers read and write.
  \<open>lastMtime\<close> is 0 until a modification time has been recorded.
\<close>

record watcher_state =
  lastMtime :: real
  lastConfig :: "ToolsConfig option"

text \<open>What a handler of the watcher does beside that: a log line or an event.\<close>

datatype watcher_effect =
    WatcherLog string
  | EmitChange ToolsConfig
  | EmitDelete
  | EmitError string

text \<open>
  \<^verbatim>\<open>`Failed to parse tools.json: ${result.errors?.join(', ')}`\<close>
\<close>

definition parse_failure_message :: "string list option \<Rightarrow> string" where
  "parse_failure_message errors =
     ''Failed to parse tools.json: ''
     @ (case errors of Some es \<Rightarrow> join_with '', '' es | None \<Rightarrow> ''undefined'')"

definition loadAndEmit ::
  "json_host \<Rightarrow> string \<Rightarrow> file_view \<Rightarrow> watcher_state \<Rightarrow> watcher_state \<times> watcher_effect list"
  where
  "loadAndEmit host toolsJsonPath fv ws =
     (if \<not> fv_exists fv then (ws, [WatcherLog ''[watcher] tools.json does not exist''])
      else
        (let ws1 = (case fv_mtime fv of Some mtimeMs \<Rightarrow> ws\<lparr>lastMtime := mtimeMs\<rparr>
                                      | None \<Rightarrow> ws);
             result = parseToolsJson host fv toolsJsonPath
         in if \<not> pr_success result
            then (ws1, [WatcherLog (''[watcher] '' @ parse_failure_message (pr_errors result)),
                        EmitError (parse_failure_message (pr_errors result))])
            else (case pr_config result of
                    Some config \<Rightarrow>
                      (ws1\<lparr>lastConfig := Some config\<rparr>,
                       [WatcherLog (''[watcher] Loaded ''
                                    @ show_nat (length (cfg_tools config)) @ '' tools''),
                        EmitChange config])
                  | None \<Rightarrow> (ws1, []))))"

definition handleDelete :: "watcher_state \<Rightarrow> watcher_state \<times> watcher_effect list" where
  "handleDelete ws =
     (ws\<lparr>lastMtime := 0, lastConfig := None\<rparr>,
      [WatcherLog ''[watcher] tools.json deleted'', EmitDelete])"

definition poll ::
  "json_host \<Rightarrow> string \<Rightarrow> file_view \<Rightarrow> watcher_state \<Rightarrow> watcher_state \<times> watcher_effect list"
  where
  "poll host toolsJsonPath fv ws =
     (if \<not> fv_exists fv
      then (if lastMtime ws \<noteq> 0
            then (ws\<lparr>lastMtime := 0, lastConfig := None\<rparr>, [EmitDelete])
            else (ws, []))
      else case fv_mtime fv of
        Some mtime \<Rightarrow>
          (if mtime \<noteq> lastMtime ws
           then (let (ws', effects) = loadAndEmit host toolsJsonPath fv (ws\<lparr>lastMtime := mtime\<rparr>)
                 in (ws', WatcherLog ''[watcher] Poll detected change'' # effects))
           else (ws, []))
      | None \<Rightarrow>
          (if lastMtime ws \<noteq> 0
           then (ws\<lparr>lastMtime := 0, lastConfig := None\<rparr>, [EmitDelete])
           else (ws, [])))"

section \<open>server.ts: the watcher wired to the registry\<close>

text \<open>
  The three listeners that \<^verbatim>\<open>startWatcher\<close> registers: \<^verbatim>\<open>'change'\<close> replaces the
  registry's content, \<^verbatim>\<open>'delete'\<close> clears it, \<^verbatim>\<open>'error'\<close> writes a log line.
\<close>

fun listener :: "watcher_effect \<Rightarrow> ToolRegistry \<Rightarrow> ToolRegistry \<times> registry_effect list" where
  "listener (EmitChange config) reg = updateFromConfig config reg"
| "listener EmitDelete reg = clear reg"
| "listener (EmitError message) reg =
     (reg, [ConsoleError (''[server] Watcher error: '' @ message)])"
| "listener (WatcherLog line) reg = (reg, [])"

fun listeners ::
  "watcher_effect list \<Rightarrow> ToolRegistry \<Rightarrow> ToolRegistry \<times> registry_effect list" where
  "listeners [] reg = (reg, [])"
| "listeners (e # es) reg =
     (let (reg1, out1) = listener e reg; (reg2, out2) = listeners es reg1
      in (reg2, out1 @ out2))"

text \<open>
  The watcher and the registry together, and what sets a handler of the watcher off: a
  tick of the poll timer, the \<^verbatim>\<open>'unlink'\<close> event of the file watcher, or a load (the
  first one of \<^verbatim>\<open>start()\<close>, or the debounced one after an \<^verbatim>\<open>'add'\<close> or
  \<^verbatim>\<open>'change'\<close> event). A tick and a load come with what they find on disk.
\<close>

record system =
  sys_watcher :: watcher_state
  sys_registry :: ToolRegistry

datatype trigger =
    PollTick file_view
  | Unlink
  | Load file_view

text \<open>What a run of triggers leaves to observe: the watcher's effects and the registry's.\<close>

record trace =
  tr_watcher :: "watcher_effect list"
  tr_registry :: "registry_effect list"

definition handle :: "json_host \<Rightarrow> string \<Rightarrow> trigger \<Rightarrow> watcher_state
    \<Rightarrow> watcher_state \<times> watcher_effect list" where
  "handle host toolsJsonPath trig ws =
     (case trig of
        PollTick fv \<Rightarrow> poll host toolsJsonPath fv ws
      | Unlink \<Rightarrow> handleDelete ws
      | Load fv \<Rightarrow> loadAndEmit host toolsJsonPath fv ws)"

definition step :: "json_host \<Rightarrow> string \<Rightarrow> trigger \<Rightarrow> system \<Rightarrow> system \<times> trace" where
  "step host toolsJsonPath trig sys =
     (let (ws', effects) = handle host toolsJsonPath trig (sys_watcher sys);
          (reg', out) = listeners effects (sys_registry sys)
      in (\<lparr>sys_watcher = ws', sys_registry = reg'\<rparr>,
          \<lparr>tr_watcher = effects, tr_registry = out\<rparr>))"

fun steps :: "json_host \<Rightarrow> string \<Rightarrow> trigger list \<Rightarrow> system \<Rightarrow> system \<times> trace" where
  "steps host toolsJsonPath [] sys = (sys, \<lparr>tr_watcher = [], tr_registry = []\<rparr>)"
| "steps host toolsJsonPath (trig # trigs) sys =
     (let (sys1, tr1) = step host toolsJsonPath trig sys;
          (sys2, tr2) = steps host toolsJsonPath trigs sys1
      in (sys2, \<lparr>tr_watcher = tr_watcher tr1 @ tr_watcher tr2,
                 tr_registry = tr_registry tr1 @ tr_registry tr2\<rparr>))"

text \<open>The number of \<^verbatim>\<open>'delete'\<close> events among the watcher's effects.\<close>

definition deletes :: "watcher_effect list \<Rightarrow> nat" where
  "deletes effects = length (filter (\<lambda>e. e = EmitDelete) effects)"

text \<open>The events among the watcher's effects, the log lines left out.\<close>

fun events :: "watcher_effect list \<Rightarrow> watcher_effect list" where
  "events [] = []"
| "events (WatcherLog line # es) = events es"
| "events (e # es) = e # events es"

definition absent :: "file_view \<Rightarrow> bool" where
  "absent fv = (\<not> fv_exists fv)"

text \<open>
  A period in which the file is gone: every trigger finds it absent. In such a period
  the deletion is detected by an \<^verbatim>\<open>'unlink'\<close> event, or by a poll tick when a
  modification time is recorded.
\<close>

fun finds_absent :: "trigger \<Rightarrow> bool" where
  "finds_absent (PollTick fv) = absent fv"
| "finds_absent Unlink = True"
| "finds_absent (Load fv) = absent fv"

fun is_poll :: "trigger \<Rightarrow> bool" where
  "is_poll (PollTick fv) = True"
| "is_poll trig = False"

definition detected :: "trigger list \<Rightarrow> system \<Rightarrow> bool" where
  "detected trigs sys =
     (list_ex (\<lambda>trig. trig = Unlink) trigs
      \<or> (lastMtime (sys_watcher sys) \<noteq> 0 \<and> list_ex is_poll trigs))"

definition system_reset :: system where
  "system_reset = \<lparr>sys_watcher = \<lparr>lastMtime = 0, lastConfig = None\<rparr>, sys_registry = []\<rparr>"

section \<open>Concrete tools for the examples\<close>

definition bash_executor :: "string \<Rightarrow> ToolExecutor" where
  "bash_executor src =
     \<lparr>ex_type = ''bash'', ex_code = Some src, ex_file = None, ex_timeout = None\<rparr>"

definition tool_a :: ToolDefinition where
  "tool_a = \<lparr>tool_name = ''a'', tool_description = ''first'', tool_parameters = None,
             tool_executor = bash_executor ''echo a''\<rparr>"

definition tool_b :: ToolDefinition where
  "tool_b = \<lparr>tool_name = ''b'', tool_description = ''second'', tool_parameters = None,
             tool_executor = bash_executor ''echo b''\<rparr>"

definition tool_a2 :: ToolDefinition where
  "tool_a2 = \<lparr>tool_name = ''a'', tool_description = ''first, again'', tool_parameters = None,
              tool_executor = bash_executor ''echo a2''\<rparr>"

definition config_ab :: ToolsConfig where
  "config_ab = \<lparr>cfg_version = ''1.0'', cfg_tools = [tool_a, tool_b]\<rparr>"

definition config_dup :: ToolsConfig where
  "config_dup = \<lparr>cfg_version = ''1.0'', cfg_tools = [tool_a, tool_b, tool_a2]\<rparr>"

section \<open>A concrete platform for the examples\<close>

text \<open>
  The built-in functions where the examples use them: \<^verbatim>\<open>toUpperCase\<close> on ASCII text,
  and the string of a number on the safe integers, which is the decimal numeral
  (the examples hold no other key and no other number; the last branch stands for
  what the demo does not render).
\<close>

definition ascii_toUpperCase_char :: "char \<Rightarrow> char" where
  "ascii_toUpperCase_char c =
     (case map_of (zip ''abcdefghijklmnopqrstuvwxyz'' ''ABCDEFGHIJKLMNOPQRSTUVWXYZ'') c of
        Some u \<Rightarrow> u
      | None \<Rightarrow> c)"

definition ascii_toUpperCase :: "string \<Rightarrow> string" where
  "ascii_toUpperCase s = map ascii_toUpperCase_char s"

definition safe_integer_string :: "real \<Rightarrow> string" where
  "safe_integer_string x =
     (if x = of_int \<lfloor>x\<rfloor> \<and> \<bar>x\<bar> \<le> 9007199254740991 then show_int \<lfloor>x\<rfloor>
      else ''(not a safe integer)'')"

definition demo_js :: builtins where
  "demo_js = \<lparr>toUpperCase = ascii_toUpperCase, Number_toString = safe_integer_string\<rparr>"

text \<open>
  A machine without \<^verbatim>\<open>python3\<close>, with a project at \<^verbatim>\<open>/proj\<close> whose configuration
  directory holds the script \<^verbatim>\<open>run.sh\<close> and the directory \<^verbatim>\<open>scripts\<close>.
  \<^verbatim>\<open>spawn\<close> throws on an argument that holds a NUL byte. The shell knows five
  programs: \<^verbatim>\<open>sleep 5\<close> ends after five seconds, or at once by the signal when it is
  signalled; \<^verbatim>\<open>echo hello\<close>; \<^verbatim>\<open>echo $name\<close>, which prints the variable of its
  environment; \<^verbatim>\<open>exit 3\<close>; and \<^verbatim>\<open>kill -9 $$\<close>, by which the shell ends itself with
  a signal.
\<close>

definition demo_spawn ::
  "string \<Rightarrow> string list \<Rightarrow> env \<Rightarrow> string \<Rightarrow> string + child_process" where
  "demo_spawn command args e cwd =
     (if CHR 0x00 \<in> set (concat args)
      then Inl ''The argument args[1] must be a string without null bytes''
      else if command \<noteq> ''bash''
      then Inr \<lparr>proc_timeline = [(0, ErrorEvent (''spawn '' @ command @ '' ENOENT'')),
                                 (0, CloseEvent (Some (- 2)))],
                proc_after_kill = []\<rparr>
      else if args = [''-c'', ''sleep 5'']
      then Inr \<lparr>proc_timeline = [(5000, CloseEvent (Some 0))],
                proc_after_kill = [CloseEvent None]\<rparr>
      else if args = [''-c'', ''echo hello'']
      then Inr \<lparr>proc_timeline = [(3, StdoutData ''hello''), (5, CloseEvent (Some 0))],
                proc_after_kill = [CloseEvent None]\<rparr>
      else if args = [''-c'', ''echo $name'']
      then Inr \<lparr>proc_timeline =
                  [(3, StdoutData (case e ''name'' of Some v \<Rightarrow> v | None \<Rightarrow> [])),
                   (5, CloseEvent (Some 0))],
                proc_after_kill = [CloseEvent None]\<rparr>
      else if args = [''-c'', ''exit 3'']
      then Inr \<lparr>proc_timeline = [(2, CloseEvent (Some 3))],
                proc_after_kill = [CloseEvent None]\<rparr>
      else if args = [''-c'', ''kill -9 $$'']
      then Inr \<lparr>proc_timeline = [(2, CloseEvent None)], proc_after_kill = [CloseEvent None]\<rparr>
      else Inr \<lparr>proc_timeline = [(2, StderrData ''bash: command not found''),
                                 (3, CloseEvent (Some 127))],
                proc_after_kill = [CloseEvent None]\<rparr>)"

definition demo_fs :: "string \<Rightarrow> fs_entry" where
  "demo_fs path =
     (if path = ''/proj/.mcp/run.sh'' then FileContents ''echo hello''
      else if path = ''/proj/.mcp/scripts''
      then Unreadable ''EISDIR: illegal operation on a directory, read''
      else NoEntry)"

definition demo_platform :: platform where
  "demo_platform =
     \<lparr>pf_js = demo_js,
      pf_env = [''PATH'' \<mapsto> ''/usr/bin''],
      pf_join = (\<lambda>dir file. dir @ ''/'' @ file),
      pf_fs = demo_fs,
      pf_spawn = demo_spawn\<rparr>"

definition run_demo :: "ToolExecutor \<Rightarrow> (string \<times> jsval) list \<Rightarrow> outcome" where
  "run_demo executor params =
     executeCommand demo_platform executor params ''/proj'' ''/proj/.mcp'' ''demo''"

text \<open>The child of \<^verbatim>\<open>sleep 5\<close> on that machine, and the environment of a call without parameters.\<close>

definition sleeper :: child_process where
  "sleeper = \<lparr>proc_timeline = [(5000, CloseEvent (Some 0))], proc_after_kill = [CloseEvent None]\<rparr>"

definition demo_env :: env where
  "demo_env = [''PATH'' \<mapsto> ''/usr/bin'', ''PROJECT_ROOT'' \<mapsto> ''/proj'',
               ''MCP_TOOLS_DIR'' \<mapsto> ''/proj/.mcp'', ''TOOL_NAME'' \<mapsto> ''demo'']"

section \<open>A concrete configuration file for the examples\<close>

text \<open>
  Three states of \<^verbatim>\<open>/proj/.mcp/tools.json\<close>, and a host that parses them: the file
  that declares the tools \<open>a\<close> and \<open>b\<close>, a file cut off in the middle, and a file whose
  version the schema refuses.
\<close>

definition text_ab :: string where
  \<open>text_ab = ''{"version":"1.0","tools":[{"name":"a","description":"first","executor":{"type":"bash","code":"echo a"}},{"name":"b","description":"second","executor":{"type":"bash","code":"echo b"}}]}''\<close>

definition text_cut :: string where
  \<open>text_cut = ''{"version":"1.0","tools":[{"name":"a",''\<close>

definition text_v2 :: string where
  \<open>text_v2 = ''{"version":"2.0","tools":[]}''\<close>

definition tool_doc :: "string \<Rightarrow> string \<Rightarrow> string \<Rightarrow> jsval" where
  "tool_doc n d src =
     JObj [(''name'', JStr n), (''description'', JStr d),
           (''executor'', JObj [(''type'', JStr ''bash''), (''code'', JStr src)])]"

definition doc_ab :: jsval where
  "doc_ab = JObj [(''version'', JStr ''1.0''),
                  (''tools'', JArr [tool_doc ''a'' ''first'' ''echo a'',
                                   tool_doc ''b'' ''second'' ''echo b''])]"

definition doc_v2 :: jsval where
  "doc_v2 = JObj [(''version'', JStr ''2.0''), (''tools'', JArr [])]"

definition demo_host :: json_host where
  "demo_host =
     \<lparr>JSON_parse = (\<lambda>content. if content = text_ab then Inr doc_ab
                               else if content = text_v2 then Inr doc_v2
                               else Inl ''Unexpected end of JSON input''),
      validate = (\<lambda>parsed. if parsed = doc_ab then (True, None)
                            else (False,
                                  Some [\<lparr>ve_instancePath = Some ''/version'',
                                         ve_message =
                                           Some ''must be equal to one of the allowed values''\<rparr>])),
      as_ToolsConfig = (\<lambda>parsed. if parsed = doc_ab then config_ab
                                  else \<lparr>cfg_version = ''2.0'', cfg_tools = []\<rparr>)\<rparr>"

definition view_ab :: file_view where
  "view_ab = \<lparr>fv_exists = True, fv_mtime = Some 1000, fv_read = Inr text_ab\<rparr>"

definition view_cut :: file_view where
  "view_cut = \<lparr>fv_exists = True, fv_mtime = Some 2000, fv_read = Inr text_cut\<rparr>"

definition view_v2 :: file_view where
  "view_v2 = \<lparr>fv_exists = True, fv_mtime = Some 3000, fv_read = Inr text_v2\<rparr>"

definition view_gone :: file_view where
  "view_gone = \<lparr>fv_exists = False, fv_mtime = None,
                fv_read = Inl ''ENOENT: no such file or directory''\<rparr>"

definition demo_path :: string where
  "demo_path = ''/proj/.mcp/tools.json''"

definition system_started :: system where
  "system_started = \<lparr>sys_watcher = \<lparr>lastMtime = 0, lastConfig = None\<rparr>, sys_registry = []\<rparr>"

definition system_loaded :: system where
  "system_loaded =
     \<lparr>sys_watcher = \<lparr>lastMtime = 1000, lastConfig = Some config_ab\<rparr>,
      sys_registry = [(''a'', tool_a), (''b'', tool_b)]\<rparr>"

section \<open>The registry: lemmas\<close>

lemma find_append_case:
  "find P (xs @ ys) = (case find P xs of None \<Rightarrow> find P ys | Some x \<Rightarrow> Some x)"
  by (induction xs) auto

lemma Map_set_keys_set: "fst ` set (Map_set k v m) = insert k (fst ` set m)"
  by (induction m) auto

lemma Map_set_distinct: "distinct (map fst m) \<Longrightarrow> distinct (map fst (Map_set k v m))"
  by (induction m) (auto simp: Map_set_keys_set)

lemma Map_set_map_of: "map_of (Map_set k v m) = (map_of m)(k \<mapsto> v)"
  by (induction m) auto

lemma populate_keys_set:
  "fst ` set (populate reg ts) = fst ` set reg \<union> tool_name ` set ts"
  by (induction ts arbitrary: reg) (auto simp: Map_set_keys_set)

lemma populate_distinct: "distinct (map fst reg) \<Longrightarrow> distinct (map fst (populate reg ts))"
  by (induction ts arbitrary: reg) (auto simp: Map_set_distinct)

lemma populate_map_of:
  "map_of (populate reg ts) n =
     (case last_named n ts of Some t \<Rightarrow> Some t | None \<Rightarrow> map_of reg n)"
proof (induction ts arbitrary: reg)
  case Nil
  show ?case by (simp add: last_named_def)
next
  case (Cons t ts)
  show ?case
    by (cases "find (\<lambda>t. tool_name t = n) (rev ts)")
       (auto simp: Cons.IH last_named_def Map_set_map_of find_append_case)
qed

lemma populate_entries_named:
  "\<forall>p \<in> set reg. fst p = tool_name (snd p) \<Longrightarrow>
   \<forall>p \<in> set (populate reg ts). fst p = tool_name (snd p)"
proof (induction ts arbitrary: reg)
  case Nil
  then show ?case by simp
next
  case (Cons t ts)
  have "\<forall>p \<in> set (Map_set (tool_name t) t reg). fst p = tool_name (snd p)"
    using Cons.prems by (induction reg) auto
  then show ?case by (simp add: Cons.IH)
qed

lemma getTools_names: "map tool_name (getTools (populate [] ts)) = Map_keys (populate [] ts)"
  using populate_entries_named [of "[]" ts]
  by (simp add: getTools_def Map_values_def Map_keys_def)

lemma keys_populate_set: "set (Map_keys (populate [] ts)) = tool_name ` set ts"
  by (simp add: Map_keys_def populate_keys_set)

lemma keys_populate_distinct: "distinct (Map_keys (populate [] ts))"
  using populate_distinct [of "[]" ts] by (simp add: Map_keys_def)

lemma fst_updateFromConfig: "fst (updateFromConfig config reg) = populate [] (cfg_tools config)"
  by (simp add: updateFromConfig_def Let_def)

lemma getTool_populate: "getTool (populate [] ts) n = last_named n ts"
  by (simp add: getTool_def Map_get_def populate_map_of split: option.splits)

lemma length_getTools_populate: "length (getTools (populate [] ts)) = card (tool_name ` set ts)"
proof -
  have "length (getTools (populate [] ts)) = length (Map_keys (populate [] ts))"
    by (simp add: getTools_def Map_values_def Map_keys_def)
  also have "\<dots> = card (set (Map_keys (populate [] ts)))"
    by (simp add: distinct_card keys_populate_distinct)
  finally show ?thesis by (simp add: keys_populate_set)
qed

lemma getTools_are_last:
  "\<forall>t \<in> set (getTools (populate [] ts)). last_named (tool_name t) ts = Some t"
proof
  fix t
  assume "t \<in> set (getTools (populate [] ts))"
  then obtain k where in_reg: "(k, t) \<in> set (populate [] ts)"
    by (auto simp: getTools_def Map_values_def)
  with populate_entries_named [of "[]" ts] have "k = tool_name t"
    by fastforce
  moreover have "distinct (map fst (populate [] ts))"
    using populate_distinct [of "[]" ts] by simp
  ultimately have "map_of (populate [] ts) (tool_name t) = Some t"
    using in_reg by simp
  then show "last_named (tool_name t) ts = Some t"
    using getTool_populate [of ts "tool_name t"] by (simp add: getTool_def Map_get_def)
qed

lemma populate_fresh_names:
  "distinct (map tool_name ts) \<Longrightarrow> fst ` set reg \<inter> tool_name ` set ts = {} \<Longrightarrow>
   populate reg ts = reg @ map (\<lambda>t. (tool_name t, t)) ts"
proof (induction ts arbitrary: reg)
  case Nil
  then show ?case by simp
next
  case (Cons t ts)
  have notin: "tool_name t \<notin> fst ` set reg"
    using Cons.prems by auto
  then have step: "Map_set (tool_name t) t reg = reg @ [(tool_name t, t)]"
    by (induction reg) auto
  have "populate (reg @ [(tool_name t, t)]) ts
          = (reg @ [(tool_name t, t)]) @ map (\<lambda>t. (tool_name t, t)) ts"
    using Cons.prems by (intro Cons.IH) auto
  then show ?case by (simp add: step)
qed

lemma getTools_declared_order:
  "distinct (map tool_name ts) \<Longrightarrow> getTools (populate [] ts) = ts"
  by (simp add: populate_fresh_names getTools_def Map_values_def comp_def)

lemma card_lt_length_iff: "card (set xs) < length xs \<longleftrightarrow> \<not> distinct xs"
proof
  assume "card (set xs) < length xs"
  then show "\<not> distinct xs" using distinct_card [of xs] by auto
next
  assume "\<not> distinct xs"
  then have "card (set xs) \<noteq> length xs" using card_distinct [of xs] by auto
  then show "card (set xs) < length xs" using card_length [of xs] by linarith
qed

section \<open>The registry: the claims\<close>

text \<open>
  C9. \<^verbatim>\<open>clear()\<close> on an empty registry changes nothing and emits nothing, neither a
  log line nor an \<^verbatim>\<open>'update'\<close> event; on a registry that holds tools it empties the
  map and emits exactly one \<^verbatim>\<open>'update'\<close> event, whose payload is the empty tool list.
\<close>

theorem clear_noop_when_empty:
  "clear reg =
     (if reg = [] then (reg, [])
      else ([], [ConsoleError ''[registry] Cleared all tools'', EmitUpdate []]))
   \<and> getTools (fst (clear reg)) = []
   \<and> update_events (snd (clear reg)) = (if reg = [] then [] else [[]])"
  by (simp add: clear_def Let_def getTools_def Map_values_def)

theorem clear_noop_when_empty_witness:
  "clear [] = ([], [])
   \<and> clear (fst (updateFromConfig config_ab []))
       = ([], [ConsoleError ''[registry] Cleared all tools'', EmitUpdate []])
   \<and> update_events (snd (clear (fst (updateFromConfig config_ab [])))) = [[]]"
  using clear_noop_when_empty [of "[]"]
        clear_noop_when_empty [of "fst (updateFromConfig config_ab [])"]
  by (simp add: fst_updateFromConfig config_ab_def)

text \<open>
  C10. When a snapshot declares a name more than once, \<^verbatim>\<open>updateFromConfig\<close> keeps the
  last definition of the name: \<^verbatim>\<open>getTool(name)\<close> is the definition that stands latest in
  the declared order, \<^verbatim>\<open>getTools()\<close> holds one entry per distinct name (each the last
  definition of its name), and so it is shorter than the snapshot's tool list exactly
  when a name is declared twice. When no name is declared twice, \<^verbatim>\<open>getTools()\<close> is
  the declared list, in its order.
\<close>

theorem updateFromConfig_last_write_wins:
  "getTool (fst (updateFromConfig config reg)) n = last_named n (cfg_tools config)
   \<and> distinct (map tool_name (getTools (fst (updateFromConfig config reg))))
   \<and> set (map tool_name (getTools (fst (updateFromConfig config reg))))
       = set (map tool_name (cfg_tools config))
   \<and> (\<forall>t \<in> set (getTools (fst (updateFromConfig config reg))).
         last_named (tool_name t) (cfg_tools config) = Some t)
   \<and> length (getTools (fst (updateFromConfig config reg)))
       = card (set (map tool_name (cfg_tools config)))
   \<and> length (getTools (fst (updateFromConfig config reg))) \<le> length (cfg_tools config)
   \<and> (length (getTools (fst (updateFromConfig config reg))) < length (cfg_tools config)
        \<longleftrightarrow> \<not> distinct (map tool_name (cfg_tools config)))
   \<and> (distinct (map tool_name (cfg_tools config)) \<longrightarrow>
        getTools (fst (updateFromConfig config reg)) = cfg_tools config)"
proof -
  let ?ts = "cfg_tools config"
  let ?reg = "populate [] ?ts"
  have len: "length (getTools ?reg) = card (set (map tool_name ?ts))"
    by (simp add: length_getTools_populate)
  have le: "card (set (map tool_name ?ts)) \<le> length ?ts"
    using card_length [of "map tool_name ?ts"] by simp
  have lt: "card (set (map tool_name ?ts)) < length ?ts \<longleftrightarrow> \<not> distinct (map tool_name ?ts)"
    using card_lt_length_iff [of "map tool_name ?ts"] by simp
  have "getTool ?reg n = last_named n ?ts"
    by (rule getTool_populate)
  moreover have "distinct (map tool_name (getTools ?reg))"
    by (simp only: getTools_names keys_populate_distinct)
  moreover have "set (map tool_name (getTools ?reg)) = set (map tool_name ?ts)"
    by (simp only: getTools_names keys_populate_set set_map)
  moreover note getTools_are_last [of ?ts]
  ultimately show ?thesis
    using len le lt by (simp add: fst_updateFromConfig getTools_declared_order)
qed

theorem updateFromConfig_last_write_wins_witness:
  "getTool (fst (updateFromConfig config_dup [])) ''a'' = Some tool_a2
   \<and> getTools (fst (updateFromConfig config_dup [])) = [tool_a2, tool_b]
   \<and> last_named ''a'' (cfg_tools config_dup) = Some tool_a2
   \<and> last_named ''b'' (cfg_tools config_dup) = Some tool_b
   \<and> length (getTools (fst (updateFromConfig config_dup []))) < length (cfg_tools config_dup)
   \<and> \<not> distinct (map tool_name (cfg_tools config_dup))
   \<and> distinct (map tool_name (cfg_tools config_ab))
   \<and> getTools (fst (updateFromConfig config_ab [])) = [tool_a, tool_b]"
  using updateFromConfig_last_write_wins [of config_dup "[]" "''a''"]
        updateFromConfig_last_write_wins [of config_ab "[]" "''a''"]
  by (simp add: fst_updateFromConfig config_dup_def config_ab_def tool_a_def tool_b_def
                tool_a2_def getTools_def Map_values_def last_named_def)

text \<open>
  C4, as the code has it. Loading the same configuration a second time leaves the map as
  it is and reports no added and no removed name; it does report every declared tool as
  updated (when the configuration declares any) and it emits an \<^verbatim>\<open>'update'\<close> event
  with the tool list, as every call of \<^verbatim>\<open>updateFromConfig\<close> does.
\<close>

theorem updateFromConfig_twice:
  "updateFromConfig config (fst (updateFromConfig config reg)) =
     (fst (updateFromConfig config reg),
      (if cfg_tools config = [] then []
       else [ConsoleError (''[registry] Updated tools: ''
                           @ join_with '', '' (map tool_name (cfg_tools config)))])
      @ [EmitUpdate (getTools (fst (updateFromConfig config reg)))])
   \<and> diff_added (Map_keys (fst (updateFromConfig config reg))) config = []
   \<and> diff_removed (Map_keys (fst (updateFromConfig config reg))) config = []
   \<and> diff_updated (Map_keys (fst (updateFromConfig config reg))) config = cfg_tools config"
proof -
  let ?old = "Map_keys (populate [] (cfg_tools config))"
  have added: "diff_added ?old config = []"
    by (simp add: diff_added_def keys_populate_set)
  have removed: "diff_removed ?old config = []"
    by (simp add: diff_removed_def keys_populate_set)
  have updated: "diff_updated ?old config = cfg_tools config"
    by (simp add: diff_updated_def keys_populate_set)
  have step: "updateFromConfig config (populate [] (cfg_tools config)) =
      (populate [] (cfg_tools config),
       (if length (cfg_tools config) > 0
        then [ConsoleError (''[registry] Updated tools: ''
                            @ join_with '', '' (map tool_name (cfg_tools config)))]
        else [])
       @ [EmitUpdate (getTools (populate [] (cfg_tools config)))])"
    unfolding updateFromConfig_def Let_def added removed updated by simp
  show ?thesis
    unfolding fst_updateFromConfig step using added removed updated by simp
qed

theorem updateFromConfig_twice_witness:
  "fst (updateFromConfig config_ab []) = [(''a'', tool_a), (''b'', tool_b)]
   \<and> updateFromConfig config_ab [(''a'', tool_a), (''b'', tool_b)]
       = ([(''a'', tool_a), (''b'', tool_b)],
          [ConsoleError ''[registry] Updated tools: a, b'', EmitUpdate [tool_a, tool_b]])
   \<and> updateFromConfig \<lparr>cfg_version = ''1.0'', cfg_tools = []\<rparr> [] = ([], [EmitUpdate []])"
  using updateFromConfig_twice [of config_ab "[]"]
        updateFromConfig_twice [of "\<lparr>cfg_version = ''1.0'', cfg_tools = []\<rparr>" "[]"]
  by (simp add: fst_updateFromConfig config_ab_def tool_a_def tool_b_def getTools_def
                Map_values_def)

text \<open>
  C4 as stated fails: the second load of a configuration with the tools \<open>a\<close> and \<open>b\<close>
  reports both as updated and emits an \<^verbatim>\<open>'update'\<close> event.
\<close>

theorem updateFromConfig_twice_emits:
  "snd (updateFromConfig config_ab (fst (updateFromConfig config_ab [])))
     = [ConsoleError ''[registry] Updated tools: a, b'', EmitUpdate [tool_a, tool_b]]
   \<and> update_events (snd (updateFromConfig config_ab (fst (updateFromConfig config_ab []))))
       = [[tool_a, tool_b]]"
  by (simp add: updateFromConfig_def Let_def config_ab_def tool_a_def tool_b_def
                diff_added_def diff_removed_def diff_updated_def Map_keys_def getTools_def
                Map_values_def)

section \<open>The execution engine: lemmas\<close>

lemma resolve_settled: "rs_resolved st = Some r \<Longrightarrow> rs_resolved (resolve r' st) = Some r"
  by (simp add: resolve_def)

lemma on_event_settled:
  "rs_resolved st = Some r \<Longrightarrow> rs_resolved (on_event js interp timeout st e) = Some r"
  by (cases e) (simp_all add: resolve_def clearTimeout_def)

lemma foldl_on_event_settled:
  "rs_resolved st = Some r \<Longrightarrow>
   rs_resolved (foldl (on_event js interp timeout) st es) = Some r"
  by (induction es arbitrary: st) (simp_all add: on_event_settled)

lemma event_loop_settled:
  "rs_resolved st = Some r \<Longrightarrow>
   rs_resolved (event_loop js interp timeout delay after tes st) = Some r"
proof (induction tes arbitrary: st)
  case Nil
  then show ?case by (simp add: foldl_on_event_settled on_timeout_def)
next
  case (Cons p tes)
  obtain t e where p: "p = (t, e)" by (cases p)
  show ?case
    using Cons.prems
    by (simp add: p Cons.IH on_event_settled foldl_on_event_settled on_timeout_def)
qed

lemma foldl_data:
  "data_only es \<Longrightarrow>
   foldl (on_event js interp timeout) st es
     = st\<lparr>rs_stdout := rs_stdout st @ out_of es, rs_stderr := rs_stderr st @ err_of es\<rparr>"
proof (induction es arbitrary: st)
  case Nil
  show ?case by simp
next
  case (Cons e es)
  then have rest: "data_only es" and e: "is_data e"
    by (simp_all add: data_only_def)
  from e show ?case
    by (cases e) (simp_all add: Cons.IH [OF rest])
qed

lemma event_loop_data:
  "data_only (map snd pre) \<Longrightarrow> before delay pre \<Longrightarrow>
   event_loop js interp timeout delay after (pre @ rest) st
     = event_loop js interp timeout delay after rest
         (st\<lparr>rs_stdout := rs_stdout st @ out_of (map snd pre),
             rs_stderr := rs_stderr st @ err_of (map snd pre)\<rparr>)"
proof (induction pre arbitrary: st)
  case Nil
  show ?case by simp
next
  case (Cons p pre)
  obtain t e where p: "p = (t, e)" by (cases p)
  from Cons.prems have rest: "data_only (map snd pre)" "before delay pre"
    and e: "is_data e" and t: "t < delay"
    by (simp_all add: data_only_def before_def p)
  from e t show ?case
    by (cases e) (simp_all add: p Cons.IH [OF rest])
qed

text \<open>The process closes before the timer fires.\<close>

lemma run_proc_close:
  assumes "proc_timeline proc = pre @ (t, CloseEvent exitCode) # rest"
    and "data_only (map snd pre)" and "before (setTimeout_delay timeout) pre"
    and "t < setTimeout_delay timeout"
  shows "rs_resolved (run_proc js interp timeout proc) =
           Some \<lparr>res_success = (exitCode = Some 0),
                 res_stdout = out_of (map snd pre), res_stderr = err_of (map snd pre),
                 res_exitCode = (case exitCode of Some c \<Rightarrow> c | None \<Rightarrow> 0),
                 res_error = None\<rparr>"
  using assms
  by (simp add: run_proc_def event_loop_data initial_run_state_def)
     (rule event_loop_settled, simp add: resolve_def clearTimeout_def)

text \<open>The process reports through \<^verbatim>\<open>'error'\<close> that it could not be spawned.\<close>

lemma run_proc_error:
  assumes "proc_timeline proc = pre @ (t, ErrorEvent msg) # rest"
    and "data_only (map snd pre)" and "before (setTimeout_delay timeout) pre"
    and "t < setTimeout_delay timeout"
  shows "rs_resolved (run_proc js interp timeout proc) =
           Some \<lparr>res_success = False,
                 res_stdout = out_of (map snd pre), res_stderr = err_of (map snd pre),
                 res_exitCode = 1, res_error = Some (spawn_message interp msg)\<rparr>"
  using assms
  by (simp add: run_proc_def event_loop_data initial_run_state_def)
     (rule event_loop_settled, simp add: resolve_def clearTimeout_def)

lemma event_loop_fires:
  "rs_timer st \<Longrightarrow> not_before delay tes \<Longrightarrow>
   event_loop js interp timeout delay after tes st
     = foldl (on_event js interp timeout) (on_timeout st) after"
  by (cases tes) (auto simp: not_before_def)

text \<open>The timer fires first, and the signalled process closes.\<close>

lemma run_proc_timeout:
  assumes "proc_timeline proc = pre @ rest"
    and "data_only (map snd pre)" and "before (setTimeout_delay timeout) pre"
    and "not_before (setTimeout_delay timeout) rest"
    and "proc_after_kill proc = post @ CloseEvent exitCode # later"
    and "data_only post"
  shows "rs_resolved (run_proc js interp timeout proc) =
           Some \<lparr>res_success = False,
                 res_stdout = out_of (map snd pre) @ out_of post,
                 res_stderr = err_of (map snd pre) @ err_of post,
                 res_exitCode = (case exitCode of Some c \<Rightarrow> c | None \<Rightarrow> 1),
                 res_error = Some (timeout_message js timeout)\<rparr>"
proof -
  let ?st = "initial_run_state\<lparr>rs_stdout := out_of (map snd pre),
                                rs_stderr := err_of (map snd pre)\<rparr>"
  have "run_proc js interp timeout proc
          = foldl (on_event js interp timeout) (on_timeout ?st)
              (post @ CloseEvent exitCode # later)"
    using assms
    by (simp add: run_proc_def event_loop_data initial_run_state_def event_loop_fires)
  also have "\<dots> = foldl (on_event js interp timeout)
                      (on_event js interp timeout
                         ((on_timeout ?st)\<lparr>rs_stdout := rs_stdout (on_timeout ?st) @ out_of post,
                                            rs_stderr := rs_stderr (on_timeout ?st) @ err_of post\<rparr>)
                         (CloseEvent exitCode)) later"
    using assms(6) by (simp add: foldl_data)
  finally show ?thesis
    by (simp only:)
       (rule foldl_on_event_settled,
        simp add: resolve_def clearTimeout_def on_timeout_def initial_run_state_def)
qed

lemma promise_of_not_rejected: "promise_of st \<noteq> Rejected err"
  by (simp add: promise_of_def split: option.splits)

lemma run_interpreter_spawned:
  "pf_spawn pf interp [''-c'', code] e cwd = Inr proc \<Longrightarrow>
   run_interpreter pf interp code e timeout cwd
     = promise_of (run_proc (pf_js pf) interp timeout proc)"
  by (simp add: run_interpreter_def)

lemma run_interpreter_throws:
  "pf_spawn pf interp [''-c'', code] e cwd = Inl err \<Longrightarrow>
   run_interpreter pf interp code e timeout cwd = Rejected err"
  by (simp add: run_interpreter_def)

lemma run_by_type_interpreter:
  "ex_type executor = ''bash'' \<or> ex_type executor = ''python'' \<Longrightarrow>
   run_by_type pf executor code e timeout projectRoot
     = run_interpreter pf (interpreter executor) code e timeout projectRoot"
  by (auto simp: run_by_type_def executeBash_def executePython_def interpreter_def)

lemma executeCommand_env_throws:
  "child_env (pf_js pf) (pf_env pf) projectRoot mcpDir toolName params = Inl err \<Longrightarrow>
   executeCommand pf executor params projectRoot mcpDir toolName = Rejected err"
  by (simp add: executeCommand_def)

lemma executeCommand_early:
  "child_env (pf_js pf) (pf_env pf) projectRoot mcpDir toolName params = Inr e \<Longrightarrow>
   get_code pf executor mcpDir = Inl early \<Longrightarrow>
   executeCommand pf executor params projectRoot mcpDir toolName = early"
  by (simp add: executeCommand_def)

lemma executeCommand_unknown_type:
  "child_env (pf_js pf) (pf_env pf) projectRoot mcpDir toolName params = Inr e \<Longrightarrow>
   get_code pf executor mcpDir = Inr code \<Longrightarrow>
   ex_type executor \<noteq> ''bash'' \<Longrightarrow> ex_type executor \<noteq> ''python'' \<Longrightarrow>
   executeCommand pf executor params projectRoot mcpDir toolName
     = Resolved (failure (''Unknown executor type: '' @ ex_type executor))"
  by (simp add: executeCommand_def run_by_type_def)

lemma executeCommand_runs:
  assumes "child_env (pf_js pf) (pf_env pf) projectRoot mcpDir toolName params = Inr e"
    and "get_code pf executor mcpDir = Inr code"
    and "ex_type executor = ''bash'' \<or> ex_type executor = ''python''"
    and "pf_spawn pf (interpreter executor) [''-c'', code] e projectRoot = Inr proc"
  shows "executeCommand pf executor params projectRoot mcpDir toolName =
           promise_of (run_proc (pf_js pf) (interpreter executor) (resolve_timeout executor)
                         proc)"
  using assms
  by (simp add: executeCommand_def run_by_type_interpreter run_interpreter_spawned)

lemma executeCommand_spawn_throws:
  assumes "child_env (pf_js pf) (pf_env pf) projectRoot mcpDir toolName params = Inr e"
    and "get_code pf executor mcpDir = Inr code"
    and "ex_type executor = ''bash'' \<or> ex_type executor = ''python''"
    and "pf_spawn pf (interpreter executor) [''-c'', code] e projectRoot = Inl err"
  shows "executeCommand pf executor params projectRoot mcpDir toolName = Rejected err"
  using assms
  by (simp add: executeCommand_def run_by_type_interpreter run_interpreter_throws)

lemma truthy_Some: "truthy s = Some x \<longleftrightarrow> s = Some x \<and> x \<noteq> []"
  by (auto simp: truthy_def split: option.splits)

lemma truthy_None: "truthy s = None \<longleftrightarrow> s = None \<or> s = Some []"
  by (auto simp: truthy_def split: option.splits)

lemmas show_int_eval = show_int_def show_nat.simps digit_char_def

lemma floor_minus_one: "\<lfloor>- 1 :: real\<rfloor> = - 1"
  using floor_of_int [of "- 1"] by simp

lemma safe_integer_string_of_int:
  assumes "\<bar>n\<bar> \<le> 9007199254740991"
  shows "safe_integer_string (of_int n) = show_int n"
proof -
  from assms have "\<bar>real_of_int n\<bar> \<le> 9007199254740991" by linarith
  then show ?thesis by (simp add: safe_integer_string_def)
qed

lemmas number_eval = safe_integer_string_def floor_minus_one show_int_eval

lemma demo_env_built:
  "child_env (pf_js demo_platform) (pf_env demo_platform) ''/proj'' ''/proj/.mcp'' ''demo'' []
     = Inr demo_env"
  by (simp add: child_env_def base_env_def demo_platform_def demo_env_def)

lemmas demo_eval =
  run_demo_def executeCommand_def Let_def get_code_def truthy_def run_by_type_def
  executeBash_def executePython_def run_interpreter_def run_proc_def promise_of_def
  demo_platform_def demo_spawn_def demo_fs_def resolve_timeout_def DEFAULT_TIMEOUT_def
  setTimeout_delay_def initial_run_state_def on_timeout_def resolve_def clearTimeout_def
  failure_def timeout_message_def spawn_message_def child_env_def base_env_def
  bash_executor_def demo_js_def assign_def param_string_def nullish_or_def

text \<open>
  The failures \<^verbatim>\<open>executeCommand\<close> turns into results, when the environment is built
  without an error: a script file that does not exist, neither code nor file, an
  executor type that is neither \<open>bash\<close> nor \<open>python\<close>, and, when \<^verbatim>\<open>spawn\<close> returns a
  child, a spawn failure reported through \<^verbatim>\<open>'error'\<close> and a timer that fires before
  the process closes.
\<close>

lemma executeCommand_listed_failures:
  assumes env: "child_env (pf_js pf) (pf_env pf) projectRoot mcpDir toolName params = Inr e"
  shows "(truthy (ex_code executor) = None \<and> truthy (ex_file executor) = Some file
        \<and> pf_fs pf (pf_join pf mcpDir file) = NoEntry
      \<longrightarrow> executeCommand pf executor params projectRoot mcpDir toolName
            = Resolved (failure (''Script file not found: '' @ pf_join pf mcpDir file)))
   \<and> (truthy (ex_code executor) = None \<and> truthy (ex_file executor) = None
      \<longrightarrow> executeCommand pf executor params projectRoot mcpDir toolName
            = Resolved (failure no_source_message))
   \<and> (get_code pf executor mcpDir = Inr code
        \<and> ex_type executor \<noteq> ''bash'' \<and> ex_type executor \<noteq> ''python''
      \<longrightarrow> executeCommand pf executor params projectRoot mcpDir toolName
            = Resolved (failure (''Unknown executor type: '' @ ex_type executor)))
   \<and> (get_code pf executor mcpDir = Inr code
        \<and> (ex_type executor = ''bash'' \<or> ex_type executor = ''python'')
        \<and> pf_spawn pf (interpreter executor) [''-c'', code] e projectRoot = Inr proc
        \<and> proc_timeline proc = pre @ (t, ErrorEvent msg) # rest
        \<and> data_only (map snd pre) \<and> before (setTimeout_delay (resolve_timeout executor)) pre
        \<and> t < setTimeout_delay (resolve_timeout executor)
      \<longrightarrow> executeCommand pf executor params projectRoot mcpDir toolName
            = Resolved \<lparr>res_success = False,
                        res_stdout = out_of (map snd pre), res_stderr = err_of (map snd pre),
                        res_exitCode = 1,
                        res_error = Some (spawn_message (interpreter executor) msg)\<rparr>)
   \<and> (get_code pf executor mcpDir = Inr code
        \<and> (ex_type executor = ''bash'' \<or> ex_type executor = ''python'')
        \<and> pf_spawn pf (interpreter executor) [''-c'', code] e projectRoot = Inr proc
        \<and> proc_timeline proc = pre @ rest
        \<and> data_only (map snd pre) \<and> before (setTimeout_delay (resolve_timeout executor)) pre
        \<and> not_before (setTimeout_delay (resolve_timeout executor)) rest
        \<and> proc_after_kill proc = post @ CloseEvent exitCode # later
        \<and> data_only post
      \<longrightarrow> executeCommand pf executor params projectRoot mcpDir toolName
            = Resolved \<lparr>res_success = False,
                        res_stdout = out_of (map snd pre) @ out_of post,
                        res_stderr = err_of (map snd pre) @ err_of post,
                        res_exitCode = (case exitCode of Some c \<Rightarrow> c | None \<Rightarrow> 1),
                        res_error = Some (timeout_message (pf_js pf)
                                            (resolve_timeout executor))\<rparr>)"
proof -
  have missing: "executeCommand pf executor params projectRoot mcpDir toolName
            = Resolved (failure (''Script file not found: '' @ pf_join pf mcpDir file))"
    if "truthy (ex_code executor) = None" "truthy (ex_file executor) = Some file"
       "pf_fs pf (pf_join pf mcpDir file) = NoEntry"
    using that by (intro executeCommand_early [OF env]) (simp add: get_code_def Let_def)
  have neither: "executeCommand pf executor params projectRoot mcpDir toolName
            = Resolved (failure no_source_message)"
    if "truthy (ex_code executor) = None" "truthy (ex_file executor) = None"
    using that by (intro executeCommand_early [OF env]) (simp add: get_code_def)
  have unknown: "executeCommand pf executor params projectRoot mcpDir toolName
            = Resolved (failure (''Unknown executor type: '' @ ex_type executor))"
    if "get_code pf executor mcpDir = Inr code"
       "ex_type executor \<noteq> ''bash''" "ex_type executor \<noteq> ''python''"
    using that by (rule executeCommand_unknown_type [OF env])
  have runs: "executeCommand pf executor params projectRoot mcpDir toolName =
           promise_of (run_proc (pf_js pf) (interpreter executor) (resolve_timeout executor)
                         proc)"
    if "get_code pf executor mcpDir = Inr code"
       "ex_type executor = ''bash'' \<or> ex_type executor = ''python''"
       "pf_spawn pf (interpreter executor) [''-c'', code] e projectRoot = Inr proc"
    using that by (rule executeCommand_runs [OF env])
  show ?thesis
    using missing neither unknown
    by (auto simp: runs promise_of_def run_proc_error run_proc_timeout)
qed

section \<open>The execution engine: completion\<close>

text \<open>
  C6, where the code departs from it. A process that a signal ends before the timer
  fires closes with the exit code \<open>null\<close>; the result is unsuccessful and carries the
  exit code 0, which no process reported (the branch of a timed-out run takes 1 for a
  missing exit code, the \<^verbatim>\<open>'error'\<close> handler takes 1 as well). And when \<^verbatim>\<open>spawn\<close>
  itself throws, here on code that holds a NUL byte, there is no result at all: the
  promise rejects. An exit with a code, a timed-out run and an interpreter that is not
  installed are reported as C6 says.
\<close>

theorem signal_death_reports_exit_code_zero:
  "run_demo (bash_executor ''kill -9 $$'') []
     = Resolved \<lparr>res_success = False, res_stdout = [], res_stderr = [], res_exitCode = 0,
                 res_error = None\<rparr>
   \<and> run_demo (bash_executor ''exit 3'') []
     = Resolved \<lparr>res_success = False, res_stdout = [], res_stderr = [], res_exitCode = 3,
                 res_error = None\<rparr>
   \<and> run_demo ((bash_executor ''sleep 5'')\<lparr>ex_timeout := Some 100\<rparr>) []
     = Resolved \<lparr>res_success = False, res_stdout = [], res_stderr = [], res_exitCode = 1,
                 res_error = Some ''Execution timed out after 100ms''\<rparr>
   \<and> run_demo \<lparr>ex_type = ''python'', ex_code = Some ''print(1)'', ex_file = None,
               ex_timeout = None\<rparr> []
     = Resolved \<lparr>res_success = False, res_stdout = [], res_stderr = [], res_exitCode = 1,
                 res_error = Some ''Failed to spawn python3: spawn python3 ENOENT''\<rparr>
   \<and> run_demo (bash_executor [CHR ''a'', CHR 0x00]) []
     = Rejected ''The argument args[1] must be a string without null bytes''"
  by (simp add: demo_eval number_eval)

section \<open>The execution engine: the timeout\<close>

lemma resolve_timeout_explicit_or_default:
  "resolve_timeout executor = (case ex_timeout executor of Some t \<Rightarrow> t | None \<Rightarrow> 30000)"
  by (simp add: resolve_timeout_def DEFAULT_TIMEOUT_def split: option.splits)

lemma setTimeout_delay_in_range:
  "1 \<le> t \<Longrightarrow> t \<le> 2147483647 \<Longrightarrow> int (setTimeout_delay t) = t"
  by (simp add: setTimeout_delay_def)

lemma setTimeout_delay_finite: "setTimeout_delay t \<le> 2147483647"
  by (auto simp: setTimeout_delay_def)

text \<open>
  C1, where the code departs from it. The timeout of an executor is its \<^verbatim>\<open>timeout\<close>
  field, or 30000 when the field is not set; the value goes to \<^verbatim>\<open>setTimeout\<close> as it
  is. With the timeout -1 the timer is armed all the same, Node gives it the delay 1,
  and a command that would run five seconds and exit with 0 is signalled after a
  millisecond: the run is reported as timed out ``after -1ms''. The same command with
  no timeout set runs to its end under the limit of 30000 ms.
\<close>

theorem timeout_minus_one_fires:
  "resolve_timeout \<lparr>ex_type = ''bash'', ex_code = Some ''sleep 5'', ex_file = None,
                    ex_timeout = Some (- 1)\<rparr> = - 1
   \<and> setTimeout_delay (- 1) = 1
   \<and> run_demo \<lparr>ex_type = ''bash'', ex_code = Some ''sleep 5'', ex_file = None,
               ex_timeout = Some (- 1)\<rparr> []
       = Resolved \<lparr>res_success = False, res_stdout = [], res_stderr = [], res_exitCode = 1,
                   res_error = Some ''Execution timed out after -1ms''\<rparr>
   \<and> child_env (pf_js demo_platform) (pf_env demo_platform) ''/proj'' ''/proj/.mcp'' ''demo'' []
       = Inr demo_env
   \<and> pf_spawn demo_platform ''bash'' [''-c'', ''sleep 5''] demo_env ''/proj'' = Inr sleeper
   \<and> rs_signals (run_proc (pf_js demo_platform) ''bash'' (- 1) sleeper) = [''SIGTERM'']
   \<and> run_demo \<lparr>ex_type = ''bash'', ex_code = Some ''sleep 5'', ex_file = None,
               ex_timeout = None\<rparr> []
       = Resolved \<lparr>res_success = True, res_stdout = [], res_stderr = [], res_exitCode = 0,
                   res_error = None\<rparr>"
  by (simp add: demo_eval number_eval sleeper_def demo_env_def)

section \<open>The execution engine: failures as results\<close>

text \<open>
  C2, where the code departs from it. \<^verbatim>\<open>executeCommand\<close> checks that the script file
  exists and then reads it outside any \<^verbatim>\<open>try\<close>. An executor whose file reference
  names a directory of the configuration directory passes the check, \<^verbatim>\<open>readFile\<close>
  rejects, and the promise of \<^verbatim>\<open>executeCommand\<close> rejects with it instead of resolving
  to an unsuccessful result. The promise rejects as well when \<^verbatim>\<open>spawn\<close> throws, here
  on a script that holds a NUL byte.
\<close>

theorem executeCommand_rejects_on_unreadable_script:
  "run_demo \<lparr>ex_type = ''bash'', ex_code = None, ex_file = Some ''scripts'',
             ex_timeout = None\<rparr> []
     = Rejected ''EISDIR: illegal operation on a directory, read''
   \<and> run_demo \<lparr>ex_type = ''bash'', ex_code = Some [CHR 0x00], ex_file = None,
               ex_timeout = None\<rparr> []
     = Rejected ''The argument args[1] must be a string without null bytes''"
  by (simp add: demo_eval)

section \<open>The execution engine: the source of the code\<close>

text \<open>
  C8, as the code has it. Inline code that is present and not empty is the code to run,
  verbatim. Otherwise, with the inline code absent or empty, a file reference that is
  not empty is joined to the configuration directory: a path where nothing exists ends
  the resolution with the unsuccessful result ``Script file not found'', and a file
  that can be read gives its full contents as the code to run. When the environment
  was built without an error, \<^verbatim>\<open>executeCommand\<close> returns that early result, and for
  an executor of type \<open>bash\<close> or \<open>python\<close> it hands the code it found, unchanged, to the
  interpreter after \<^verbatim>\<open>-c\<close>; when \<^verbatim>\<open>spawn\<close> returns a child, the run is the work of
  the handlers on it.
\<close>

theorem source_resolution:
  "(truthy s = Some x \<longleftrightarrow> s = Some x \<and> x \<noteq> [])
   \<and> (truthy s = None \<longleftrightarrow> s = None \<or> s = Some [])
   \<and> (truthy (ex_code executor) = Some code \<longrightarrow> get_code pf executor mcpDir = Inr code)
   \<and> (truthy (ex_code executor) = None \<and> truthy (ex_file executor) = Some script
        \<and> pf_fs pf (pf_join pf mcpDir script) = NoEntry
      \<longrightarrow> get_code pf executor mcpDir =
            Inl (Resolved \<lparr>res_success = False, res_stdout = [], res_stderr = [],
                           res_exitCode = 1,
                           res_error = Some (''Script file not found: ''
                                             @ pf_join pf mcpDir script)\<rparr>))
   \<and> (truthy (ex_code executor) = None \<and> truthy (ex_file executor) = Some script
        \<and> pf_fs pf (pf_join pf mcpDir script) = FileContents contents
      \<longrightarrow> get_code pf executor mcpDir = Inr contents)
   \<and> (child_env (pf_js pf) (pf_env pf) projectRoot mcpDir toolName params = Inr e
        \<and> get_code pf executor mcpDir = Inl early
      \<longrightarrow> executeCommand pf executor params projectRoot mcpDir toolName = early)
   \<and> (child_env (pf_js pf) (pf_env pf) projectRoot mcpDir toolName params = Inr e
        \<and> get_code pf executor mcpDir = Inr src
        \<and> (ex_type executor = ''bash'' \<or> ex_type executor = ''python'')
        \<and> pf_spawn pf (interpreter executor) [''-c'', src] e projectRoot = Inr proc
      \<longrightarrow> executeCommand pf executor params projectRoot mcpDir toolName
            = promise_of (run_proc (pf_js pf) (interpreter executor)
                            (resolve_timeout executor) proc))"
proof -
  have inline: "get_code pf executor mcpDir = Inr code"
    if "truthy (ex_code executor) = Some code"
    using that by (simp add: get_code_def)
  have missing: "get_code pf executor mcpDir =
            Inl (Resolved \<lparr>res_success = False, res_stdout = [], res_stderr = [],
                           res_exitCode = 1,
                           res_error = Some (''Script file not found: ''
                                             @ pf_join pf mcpDir script)\<rparr>)"
    if "truthy (ex_code executor) = None" "truthy (ex_file executor) = Some script"
       "pf_fs pf (pf_join pf mcpDir script) = NoEntry"
    using that by (simp add: get_code_def Let_def failure_def)
  have readable: "get_code pf executor mcpDir = Inr contents"
    if "truthy (ex_code executor) = None" "truthy (ex_file executor) = Some script"
       "pf_fs pf (pf_join pf mcpDir script) = FileContents contents"
    using that by (simp add: get_code_def Let_def)
  have early: "executeCommand pf executor params projectRoot mcpDir toolName = early"
    if "child_env (pf_js pf) (pf_env pf) projectRoot mcpDir toolName params = Inr e"
       "get_code pf executor mcpDir = Inl early"
    using that by (rule executeCommand_early)
  have runs: "executeCommand pf executor params projectRoot mcpDir toolName
            = promise_of (run_proc (pf_js pf) (interpreter executor)
                            (resolve_timeout executor) proc)"
    if "child_env (pf_js pf) (pf_env pf) projectRoot mcpDir toolName params = Inr e"
       "get_code pf executor mcpDir = Inr src"
       "ex_type executor = ''bash'' \<or> ex_type executor = ''python''"
       "pf_spawn pf (interpreter executor) [''-c'', src] e projectRoot = Inr proc"
    using that by (rule executeCommand_runs)
  show ?thesis
    using truthy_Some [of s x] truthy_None [of s] inline missing readable early runs
    by blast
qed

theorem source_resolution_witness:
  "truthy (ex_code (bash_executor ''echo hello'')) = Some ''echo hello''
   \<and> get_code demo_platform (bash_executor ''echo hello'') ''/proj/.mcp'' = Inr ''echo hello''
   \<and> get_code demo_platform
        \<lparr>ex_type = ''bash'', ex_code = Some [], ex_file = Some ''run.sh'', ex_timeout = None\<rparr>
        ''/proj/.mcp'' = Inr ''echo hello''
   \<and> run_demo \<lparr>ex_type = ''bash'', ex_code = None, ex_file = Some ''nope.sh'',
               ex_timeout = None\<rparr> []
       = Resolved \<lparr>res_success = False, res_stdout = [], res_stderr = [], res_exitCode = 1,
                   res_error = Some ''Script file not found: /proj/.mcp/nope.sh''\<rparr>
   \<and> run_demo \<lparr>ex_type = ''bash'', ex_code = None, ex_file = Some ''run.sh'',
               ex_timeout = None\<rparr> []
       = promise_of (run_proc demo_js ''bash'' 30000
                       \<lparr>proc_timeline = [(3, StdoutData ''hello''), (5, CloseEvent (Some 0))],
                        proc_after_kill = [CloseEvent None]\<rparr>)"
proof -
  let ?inline = "bash_executor ''echo hello''"
  let ?empty = "\<lparr>ex_type = ''bash'', ex_code = Some [], ex_file = Some ''run.sh'',
                 ex_timeout = None\<rparr>"
  let ?nope = "\<lparr>ex_type = ''bash'', ex_code = None, ex_file = Some ''nope.sh'',
                ex_timeout = None\<rparr>"
  let ?run = "\<lparr>ex_type = ''bash'', ex_code = None, ex_file = Some ''run.sh'',
               ex_timeout = None\<rparr>"
  let ?not_found = "Resolved \<lparr>res_success = False, res_stdout = [], res_stderr = [],
                              res_exitCode = 1,
                              res_error = Some ''Script file not found: /proj/.mcp/nope.sh''\<rparr>"
  have given: "truthy (ex_code ?inline) = Some ''echo hello''"
    "truthy (ex_code ?empty) = None" "truthy (ex_file ?empty) = Some ''run.sh''"
    "truthy (ex_code ?nope) = None" "truthy (ex_file ?nope) = Some ''nope.sh''"
    "truthy (ex_code ?run) = None" "truthy (ex_file ?run) = Some ''run.sh''"
    by (simp_all add: truthy_def bash_executor_def)
  have disk: "pf_fs demo_platform (pf_join demo_platform ''/proj/.mcp'' ''run.sh'')
                = FileContents ''echo hello''"
    "pf_fs demo_platform (pf_join demo_platform ''/proj/.mcp'' ''nope.sh'') = NoEntry"
    "''Script file not found: '' @ pf_join demo_platform ''/proj/.mcp'' ''nope.sh''
       = ''Script file not found: /proj/.mcp/nope.sh''"
    by (simp_all add: demo_platform_def demo_fs_def)
  have kind: "ex_type ?run = ''bash'' \<or> ex_type ?run = ''python''"
    "interpreter ?run = ''bash''" "resolve_timeout ?run = 30000" "pf_js demo_platform = demo_js"
    by (simp_all add: interpreter_def resolve_timeout_def DEFAULT_TIMEOUT_def demo_platform_def)
  have child: "pf_spawn demo_platform ''bash'' [''-c'', ''echo hello''] demo_env ''/proj''
      = Inr \<lparr>proc_timeline = [(3, StdoutData ''hello''), (5, CloseEvent (Some 0))],
             proc_after_kill = [CloseEvent None]\<rparr>"
    by (simp add: demo_platform_def demo_spawn_def)
  note a = source_resolution
             [where executor = ?inline and code = "''echo hello''" and pf = demo_platform
                and mcpDir = "''/proj/.mcp''"]
  note b = source_resolution
             [where executor = ?empty and script = "''run.sh''" and pf = demo_platform
                and mcpDir = "''/proj/.mcp''" and contents = "''echo hello''"]
  note c = source_resolution
             [where executor = ?nope and script = "''nope.sh''" and pf = demo_platform
                and mcpDir = "''/proj/.mcp''" and projectRoot = "''/proj''"
                and toolName = "''demo''" and params = "[]" and e = demo_env
                and early = ?not_found]
  note d = source_resolution
             [where executor = ?run and script = "''run.sh''" and pf = demo_platform
                and mcpDir = "''/proj/.mcp''" and projectRoot = "''/proj''"
                and toolName = "''demo''" and params = "[]" and e = demo_env
                and contents = "''echo hello''" and src = "''echo hello''"
                and proc = "\<lparr>proc_timeline = [(3, StdoutData ''hello''),
                                                 (5, CloseEvent (Some 0))],
                             proc_after_kill = [CloseEvent None]\<rparr>"]
  have inline: "get_code demo_platform ?inline ''/proj/.mcp'' = Inr ''echo hello''"
    using a given by blast
  have empty: "get_code demo_platform ?empty ''/proj/.mcp'' = Inr ''echo hello''"
    using b given disk by blast
  have nope: "get_code demo_platform ?nope ''/proj/.mcp'' = Inl ?not_found"
    using c given disk(2) by (simp only: disk(3))
  have nope_run: "run_demo ?nope [] = ?not_found"
    unfolding run_demo_def using c nope demo_env_built by blast
  have run: "get_code demo_platform ?run ''/proj/.mcp'' = Inr ''echo hello''"
    using d given disk by blast
  have run_run: "run_demo ?run []
       = promise_of (run_proc demo_js ''bash'' 30000
                       \<lparr>proc_timeline = [(3, StdoutData ''hello''), (5, CloseEvent (Some 0))],
                        proc_after_kill = [CloseEvent None]\<rparr>)"
  proof -
    have "pf_spawn demo_platform (interpreter ?run) [''-c'', ''echo hello''] demo_env ''/proj''
      = Inr \<lparr>proc_timeline = [(3, StdoutData ''hello''), (5, CloseEvent (Some 0))],
             proc_after_kill = [CloseEvent None]\<rparr>"
      by (simp only: kind child)
    with d run kind(1) demo_env_built
    have "run_demo ?run []
            = promise_of (run_proc (pf_js demo_platform) (interpreter ?run)
                            (resolve_timeout ?run)
                            \<lparr>proc_timeline = [(3, StdoutData ''hello''),
                                              (5, CloseEvent (Some 0))],
                             proc_after_kill = [CloseEvent None]\<rparr>)"
      unfolding run_demo_def by blast
    then show ?thesis by (simp only: kind)
  qed
  show ?thesis
    using given(1) inline empty nope_run run_run by blast
qed

text \<open>
  C8 as stated fails: inline code that is present and empty is not used. With no file
  reference beside it the run ends with the diagnostic that the executor has neither
  code nor file; with a file reference beside it the file is run.
\<close>

theorem source_resolution_fails:
  "run_demo \<lparr>ex_type = ''bash'', ex_code = Some [], ex_file = None, ex_timeout = None\<rparr> []
     = Resolved \<lparr>res_success = False, res_stdout = [], res_stderr = [], res_exitCode = 1,
                 res_error = Some no_source_message\<rparr>
   \<and> run_demo \<lparr>ex_type = ''bash'', ex_code = Some [], ex_file = Some ''run.sh'',
               ex_timeout = None\<rparr> []
     = Resolved \<lparr>res_success = True, res_stdout = ''hello'', res_stderr = [], res_exitCode = 0,
                 res_error = None\<rparr>"
  by (simp add: demo_eval)

section \<open>The execution engine: the child environment\<close>

lemma param_string_values:
  "param_string js JUndefined = Inr []
   \<and> param_string js JNull = Inr []
   \<and> param_string js (JStr s) = Inr s
   \<and> param_string js (JBool True) = Inr ''true''
   \<and> param_string js (JBool False) = Inr ''false''
   \<and> param_string js (JNum x) = Inr (Number_toString js x)
   \<and> param_string js (JArr []) = Inr []
   \<and> param_string js (JArr [JStr s, JNull, JBool True, JArr [JStr t, JStr u]])
       = Inr (s @ '',,true,'' @ t @ '','' @ u)
   \<and> param_string js (JObj []) = Inr ''[object Object]''
   \<and> param_string js (JObj [(''a'', v)]) = Inr ''[object Object]''
   \<and> param_string js (JObj [(''toString'', v)]) = Inl cannot_convert
   \<and> param_string js (JArr [JStr s, JObj [(''toString'', v)]]) = Inl cannot_convert"
  by (simp add: param_string_def nullish_or_def)

lemma assign_ordinary: "key \<noteq> ''__proto__'' \<Longrightarrow> assign e key s = e(key \<mapsto> s)"
  by (simp add: assign_def)

lemma assign_param: "assign e (''PARAM_'' @ k) s = e(''PARAM_'' @ k \<mapsto> s)"
  by (simp add: assign_def)

lemma add_params_overlay:
  "exportable js params \<Longrightarrow>
   add_params js e params = Inr (e ++ map_of (rev (param_overlays js params)))"
proof (induction params arbitrary: e)
  case Nil
  show ?case by (simp add: param_overlays_def)
next
  case (Cons p params)
  obtain key v where p: "p = (key, v)" by (cases p)
  from Cons.prems have key: "key \<noteq> ''__proto__''" and rest: "exportable js params"
    and "\<not> isl (param_string js v)"
    by (simp_all add: exportable_def p)
  then obtain s where s: "param_string js v = Inr s"
    by (cases "param_string js v") simp_all
  let ?P = "''PARAM_'' @ toUpperCase js key"
  have str: "string_of_param js v = s"
    by (simp add: string_of_param_def s)
  have step: "assign (assign e ?P s) key s = e(?P \<mapsto> s, key \<mapsto> s)"
    by (simp only: assign_param assign_ordinary [OF key])
  have "add_params js e (p # params)
          = Inr ((e(?P \<mapsto> s, key \<mapsto> s)) ++ map_of (rev (param_overlays js params)))"
    unfolding p add_params.simps s sum.case step by (rule Cons.IH [OF rest])
  also have "e(?P \<mapsto> s, key \<mapsto> s) = e ++ map_of [(key, s), (?P, s)]"
    by simp
  also have "(e ++ map_of [(key, s), (?P, s)]) ++ map_of (rev (param_overlays js params))
               = e ++ map_of (rev (param_overlays js params) @ [(key, s), (?P, s)])"
    by (simp only: map_of_append map_add_assoc)
  also have "rev (param_overlays js params) @ [(key, s), (?P, s)]
               = rev (param_overlays js (p # params))"
    by (simp add: p param_overlays_def str)
  finally show ?case .
qed

text \<open>
  For parameters the loop exports in full, the child environment is the parent's
  environment overlaid with the bindings the specification lists, the last binding of a
  name winning.
\<close>

lemma child_env_exportable:
  "exportable js params \<Longrightarrow>
   child_env js process_env projectRoot mcpDir toolName params
     = Inr (overlay process_env (overlays js projectRoot mcpDir toolName params))"
  by (simp add: child_env_def add_params_overlay overlay_def overlays_def base_env_def)

lemma overlay_last: "overlay e (bs @ [(x, y)]) = (overlay e bs)(x \<mapsto> y)"
  by (simp add: overlay_def)

text \<open>
  C7, where the code departs from it. For a parameter named \<^verbatim>\<open>__proto__\<close> the
  assignment \<^verbatim>\<open>env[key] = ...\<close> writes nothing: the child gets the entry
  \<open>PARAM___PROTO__\<close> and no bare entry. And a parameter whose value has no string, an
  object with a property \<open>toString\<close> of its own, makes \<^verbatim>\<open>String(value)\<close> throw: no
  environment is built and the promise of \<^verbatim>\<open>executeCommand\<close> rejects. Other
  parameters are exported as C7 says: \<open>name\<close> under both names, each value as its
  string, \<open>null\<close> as the empty string, and a later parameter over an earlier entry of
  the same name.
\<close>

theorem proto_parameter_has_no_bare_entry:
  "child_env demo_js [''PATH'' \<mapsto> ''/usr/bin''] ''/proj'' ''/proj/.mcp'' ''demo''
     [(''__proto__'', JStr ''x'')]
     = Inr (demo_env(''PARAM___PROTO__'' \<mapsto> ''x''))
   \<and> (demo_env(''PARAM___PROTO__'' \<mapsto> ''x'')) ''__proto__'' = None
   \<and> child_env demo_js [''PATH'' \<mapsto> ''/usr/bin''] ''/proj'' ''/proj/.mcp'' ''demo''
       [(''opts'', JObj [(''toString'', JNum 1)])]
       = Inl ''Cannot convert object to primitive value''
   \<and> run_demo (bash_executor ''echo hello'') [(''opts'', JObj [(''toString'', JNum 1)])]
       = Rejected ''Cannot convert object to primitive value''
   \<and> child_env demo_js [''PATH'' \<mapsto> ''/usr/bin''] ''/proj'' ''/proj/.mcp'' ''demo''
       [(''name'', JStr ''Ada'')]
       = Inr (demo_env(''PARAM_NAME'' \<mapsto> ''Ada'', ''name'' \<mapsto> ''Ada''))
   \<and> run_demo (bash_executor ''echo $name'') [(''name'', JStr ''Ada'')]
       = Resolved \<lparr>res_success = True, res_stdout = ''Ada'', res_stderr = [],
                   res_exitCode = 0, res_error = None\<rparr>
   \<and> child_env demo_js [''PATH'' \<mapsto> ''/usr/bin''] ''/proj'' ''/proj/.mcp'' ''demo''
       [(''on'', JBool True), (''n'', JNum 42), (''u'', JNull),
        (''xs'', JArr [JNum 1, JNull, JStr ''a'']), (''o'', JObj [(''k'', JNum 1)])]
       = Inr (demo_env(''PARAM_ON'' \<mapsto> ''true'', ''on'' \<mapsto> ''true'',
                       ''PARAM_N'' \<mapsto> ''42'', ''n'' \<mapsto> ''42'',
                       ''PARAM_U'' \<mapsto> [], ''u'' \<mapsto> [],
                       ''PARAM_XS'' \<mapsto> ''1,,a'', ''xs'' \<mapsto> ''1,,a'',
                       ''PARAM_O'' \<mapsto> ''[object Object]'',
                       ''o'' \<mapsto> ''[object Object]''))
   \<and> child_env demo_js [''PATH'' \<mapsto> ''/usr/bin''] ''/proj'' ''/proj/.mcp'' ''demo''
       [(''PATH'', JStr ''/opt''), (''TOOL_NAME'', JStr ''other'')]
       = Inr [''PATH'' \<mapsto> ''/opt'', ''PROJECT_ROOT'' \<mapsto> ''/proj'',
              ''MCP_TOOLS_DIR'' \<mapsto> ''/proj/.mcp'', ''TOOL_NAME'' \<mapsto> ''other'',
              ''PARAM_PATH'' \<mapsto> ''/opt'', ''PARAM_TOOL_NAME'' \<mapsto> ''other'']"
  by (simp add: demo_eval number_eval demo_env_def ascii_toUpperCase_def
                ascii_toUpperCase_char_def cannot_convert_def fun_eq_iff)

section \<open>The watcher: lemmas\<close>

lemmas watch_eval =
  step_def handle_def poll_def loadAndEmit_def handleDelete_def parseToolsJson_def Let_def
  demo_host_def view_ab_def view_cut_def view_v2_def view_gone_def demo_path_def
  system_started_def system_loaded_def clear_def updateFromConfig_def config_ab_def
  tool_a_def tool_b_def text_ab_def text_cut_def text_v2_def doc_ab_def doc_v2_def
  tool_doc_def diff_added_def diff_removed_def diff_updated_def Map_keys_def getTools_def
  Map_values_def bash_executor_def parse_failure_message_def validation_message_def
  truthy_def absent_def deletes_def

lemma parse_failure_has_errors:
  "\<not> pr_success (parseToolsJson host fv path) \<Longrightarrow>
   \<exists>errs. pr_errors (parseToolsJson host fv path) = Some errs
          \<and> pr_config (parseToolsJson host fv path) = None"
  by (auto simp: parseToolsJson_def Let_def split: sum.splits prod.splits option.splits)

lemma parse_failure_modes:
  "fv_exists fv \<Longrightarrow>
   \<not> pr_success (parseToolsJson host fv path) \<longleftrightarrow>
     (\<exists>err. fv_read fv = Inl err)
     \<or> (\<exists>content err. fv_read fv = Inr content \<and> JSON_parse host content = Inl err)
     \<or> (\<exists>content parsed. fv_read fv = Inr content \<and> JSON_parse host content = Inr parsed
                           \<and> \<not> fst (validate host parsed))"
  by (auto simp: parseToolsJson_def Let_def split: sum.splits prod.splits)

lemma loadAndEmit_failure:
  assumes "fv_exists fv" and "\<not> pr_success (parseToolsJson host fv path)"
  shows "loadAndEmit host path fv ws =
           ((case fv_mtime fv of Some mtimeMs \<Rightarrow> ws\<lparr>lastMtime := mtimeMs\<rparr> | None \<Rightarrow> ws),
            [WatcherLog (''[watcher] ''
                         @ parse_failure_message (pr_errors (parseToolsJson host fv path))),
             EmitError (parse_failure_message (pr_errors (parseToolsJson host fv path)))])"
  using assms by (simp add: loadAndEmit_def Let_def)

lemma loadAndEmit_failure_lastConfig:
  assumes "fv_exists fv" and "\<not> pr_success (parseToolsJson host fv path)"
  shows "lastConfig (fst (loadAndEmit host path fv ws)) = lastConfig ws"
  using assms by (simp add: loadAndEmit_failure split: option.splits)

lemma loadAndEmit_success:
  assumes "fv_exists fv" and "pr_success (parseToolsJson host fv path)"
    and "pr_config (parseToolsJson host fv path) = Some config"
  shows "loadAndEmit host path fv ws =
           ((case fv_mtime fv of Some mtimeMs \<Rightarrow> ws\<lparr>lastMtime := mtimeMs\<rparr> | None \<Rightarrow> ws)
              \<lparr>lastConfig := Some config\<rparr>,
            [WatcherLog (''[watcher] Loaded '' @ show_nat (length (cfg_tools config))
                         @ '' tools''),
             EmitChange config])"
  using assms by (simp add: loadAndEmit_def Let_def)

lemma step_load_failure:
  assumes "fv_exists fv" and "\<not> pr_success (parseToolsJson host fv path)"
  shows "step host path (Load fv) sys =
           (\<lparr>sys_watcher = fst (loadAndEmit host path fv (sys_watcher sys)),
             sys_registry = sys_registry sys\<rparr>,
            \<lparr>tr_watcher = snd (loadAndEmit host path fv (sys_watcher sys)),
             tr_registry =
               [ConsoleError (''[server] Watcher error: ''
                  @ parse_failure_message (pr_errors (parseToolsJson host fv path)))]\<rparr>)"
  using assms by (simp add: step_def handle_def loadAndEmit_failure)

lemma step_poll_failure:
  assumes "fv_exists fv" and "\<not> pr_success (parseToolsJson host fv path)"
    and "fv_mtime fv = Some mtime" and "mtime \<noteq> lastMtime (sys_watcher sys)"
  shows "step host path (PollTick fv) sys =
           (\<lparr>sys_watcher = (sys_watcher sys)\<lparr>lastMtime := mtime\<rparr>,
             sys_registry = sys_registry sys\<rparr>,
            \<lparr>tr_watcher =
               [WatcherLog ''[watcher] Poll detected change'',
                WatcherLog (''[watcher] ''
                            @ parse_failure_message (pr_errors (parseToolsJson host fv path))),
                EmitError (parse_failure_message (pr_errors (parseToolsJson host fv path)))],
             tr_registry =
               [ConsoleError (''[server] Watcher error: ''
                  @ parse_failure_message (pr_errors (parseToolsJson host fv path)))]\<rparr>)"
  using assms by (simp add: step_def handle_def poll_def loadAndEmit_failure)

lemma step_poll_deleted:
  assumes "absent fv" and "lastMtime (sys_watcher sys) \<noteq> 0"
  shows "step host path (PollTick fv) sys =
           (\<lparr>sys_watcher = \<lparr>lastMtime = 0, lastConfig = None\<rparr>, sys_registry = []\<rparr>,
            \<lparr>tr_watcher = [EmitDelete], tr_registry = snd (clear (sys_registry sys))\<rparr>)"
  using assms by (simp add: step_def handle_def poll_def absent_def clear_def Let_def)

lemma step_poll_still_absent:
  assumes "absent fv" and "lastMtime (sys_watcher sys) = 0"
  shows "step host path (PollTick fv) sys = (sys, \<lparr>tr_watcher = [], tr_registry = []\<rparr>)"
  using assms by (simp add: step_def handle_def poll_def absent_def)

lemma step_unlink:
  "step host path Unlink sys =
     (\<lparr>sys_watcher = \<lparr>lastMtime = 0, lastConfig = None\<rparr>, sys_registry = []\<rparr>,
      \<lparr>tr_watcher = [WatcherLog ''[watcher] tools.json deleted'', EmitDelete],
       tr_registry = snd (clear (sys_registry sys))\<rparr>)"
  by (simp add: step_def handle_def handleDelete_def clear_def Let_def)

lemma steps_polls_still_absent:
  "list_all absent fvs \<Longrightarrow> lastMtime (sys_watcher sys) = 0 \<Longrightarrow>
   steps host path (map PollTick fvs) sys = (sys, \<lparr>tr_watcher = [], tr_registry = []\<rparr>)"
  by (induction fvs) (simp_all add: step_poll_still_absent)

lemma steps_polls_deleted:
  assumes "list_all absent fvs" and "fvs \<noteq> []" and "lastMtime (sys_watcher sys) \<noteq> 0"
  shows "steps host path (map PollTick fvs) sys =
           (\<lparr>sys_watcher = \<lparr>lastMtime = 0, lastConfig = None\<rparr>, sys_registry = []\<rparr>,
            \<lparr>tr_watcher = [EmitDelete], tr_registry = snd (clear (sys_registry sys))\<rparr>)"
proof -
  from assms(2) obtain fv rest where fvs: "fvs = fv # rest" by (cases fvs) auto
  with assms(1) have fv: "absent fv" and rest: "list_all absent rest" by simp_all
  show ?thesis
    by (simp add: fvs step_poll_deleted [OF fv assms(3)] steps_polls_still_absent [OF rest])
qed

lemma steps_unlink_then_polls:
  assumes "list_all absent fvs"
  shows "steps host path (Unlink # map PollTick fvs) sys =
           (\<lparr>sys_watcher = \<lparr>lastMtime = 0, lastConfig = None\<rparr>, sys_registry = []\<rparr>,
            \<lparr>tr_watcher = [WatcherLog ''[watcher] tools.json deleted'', EmitDelete],
             tr_registry = snd (clear (sys_registry sys))\<rparr>)"
  by (simp add: step_unlink steps_polls_still_absent [OF assms])

lemma step_poll_created:
  assumes "fv_exists fv" and "fv_mtime fv = Some mtime"
    and "mtime \<noteq> lastMtime (sys_watcher sys)"
    and "pr_success (parseToolsJson host fv path)"
    and "pr_config (parseToolsJson host fv path) = Some config"
  shows "step host path (PollTick fv) sys =
           (\<lparr>sys_watcher = \<lparr>lastMtime = mtime, lastConfig = Some config\<rparr>,
             sys_registry = populate [] (cfg_tools config)\<rparr>,
            \<lparr>tr_watcher =
               [WatcherLog ''[watcher] Poll detected change'',
                WatcherLog (''[watcher] Loaded '' @ show_nat (length (cfg_tools config))
                            @ '' tools''),
                EmitChange config],
             tr_registry = snd (updateFromConfig config (sys_registry sys))\<rparr>)"
  using assms
  by (simp add: step_def handle_def poll_def loadAndEmit_success fst_updateFromConfig
                split_beta)

lemma step_load_created:
  assumes "fv_exists fv" and "fv_mtime fv = Some mtime"
    and "pr_success (parseToolsJson host fv path)"
    and "pr_config (parseToolsJson host fv path) = Some config"
  shows "step host path (Load fv) sys =
           (\<lparr>sys_watcher = \<lparr>lastMtime = mtime, lastConfig = Some config\<rparr>,
             sys_registry = populate [] (cfg_tools config)\<rparr>,
            \<lparr>tr_watcher =
               [WatcherLog (''[watcher] Loaded '' @ show_nat (length (cfg_tools config))
                            @ '' tools''),
                EmitChange config],
             tr_registry = snd (updateFromConfig config (sys_registry sys))\<rparr>)"
  using assms
  by (simp add: step_def handle_def loadAndEmit_success fst_updateFromConfig split_beta)

lemma step_load_absent:
  "absent fv \<Longrightarrow>
   step host path (Load fv) sys =
     (sys, \<lparr>tr_watcher = [WatcherLog ''[watcher] tools.json does not exist''],
            tr_registry = []\<rparr>)"
  by (simp add: step_def handle_def loadAndEmit_def absent_def)

lemma step_reset:
  "finds_absent trig \<Longrightarrow>
   fst (step host path trig system_reset) = system_reset
   \<and> tr_registry (snd (step host path trig system_reset)) = []"
  by (cases trig)
     (simp_all add: step_poll_still_absent step_unlink step_load_absent system_reset_def
                    clear_def)

lemma steps_reset:
  "list_all finds_absent trigs \<Longrightarrow>
   fst (steps host path trigs system_reset) = system_reset
   \<and> tr_registry (snd (steps host path trigs system_reset)) = []"
proof (induction trigs)
  case Nil
  show ?case by simp
next
  case (Cons trig trigs)
  then have head: "finds_absent trig" and rest: "list_all finds_absent trigs"
    by simp_all
  obtain sys1 tr1 where one: "step host path trig system_reset = (sys1, tr1)"
    by (cases "step host path trig system_reset")
  with step_reset [OF head, of host path]
  have sys1: "sys1 = system_reset" and tr1: "tr_registry tr1 = []" by simp_all
  obtain sys2 tr2 where more: "steps host path trigs system_reset = (sys2, tr2)"
    by (cases "steps host path trigs system_reset")
  with Cons.IH [OF rest]
  have "sys2 = system_reset" and "tr_registry tr2 = []" by simp_all
  then show ?case by (simp add: one sys1 tr1 more)
qed

text \<open>
  Over a period in which the file is gone, whatever the order of poll ticks and
  \<^verbatim>\<open>'unlink'\<close> events: when the deletion is detected the system ends reset, with an
  empty registry, and the registry's effects are those of one \<^verbatim>\<open>clear()\<close> of what it
  held; when it is not detected nothing changes.
\<close>

lemma steps_absence:
  "list_all finds_absent trigs \<Longrightarrow>
   fst (steps host path trigs sys) = (if detected trigs sys then system_reset else sys)
   \<and> tr_registry (snd (steps host path trigs sys))
       = (if detected trigs sys then snd (clear (sys_registry sys)) else [])"
proof (induction trigs)
  case Nil
  show ?case by (simp add: detected_def)
next
  case (Cons trig trigs)
  then have head: "finds_absent trig" and rest: "list_all finds_absent trigs"
    by simp_all
  note reset = steps_reset [OF rest, of host path]
  obtain sys2 tr2 where more: "steps host path trigs system_reset = (sys2, tr2)"
    by (cases "steps host path trigs system_reset")
  with reset have sys2: "sys2 = system_reset" and tr2: "tr_registry tr2 = []" by simp_all
  obtain sys3 tr3 where same: "steps host path trigs sys = (sys3, tr3)"
    by (cases "steps host path trigs sys")
  with Cons.IH [OF rest]
  have sys3: "sys3 = (if detected trigs sys then system_reset else sys)"
    and tr3: "tr_registry tr3 = (if detected trigs sys then snd (clear (sys_registry sys)) else [])"
    by simp_all
  show ?case
  proof (cases trig)
    case (PollTick fv)
    with head have fv: "absent fv" by simp
    show ?thesis
    proof (cases "lastMtime (sys_watcher sys) = 0")
      case True
      then show ?thesis
        by (simp add: PollTick step_poll_still_absent [OF fv True] same sys3 tr3 detected_def)
    next
      case False
      then show ?thesis
        using more sys2 tr2
        by (simp add: PollTick step_poll_deleted [OF fv False] detected_def
                      system_reset_def)
    qed
  next
    case Unlink
    show ?thesis
      using more sys2 tr2
      by (simp add: Unlink step_unlink detected_def system_reset_def)
  next
    case (Load fv)
    with head have fv: "absent fv" by simp
    show ?thesis
      by (simp add: Load step_load_absent [OF fv] same sys3 tr3 detected_def)
  qed
qed

lemma update_events_clear: "update_events (snd (clear reg)) = (if reg = [] then [] else [[]])"
  by (simp add: clear_def Let_def)

section \<open>The watcher: a reload that fails\<close>

lemma loadAndEmit_absent:
  "\<not> fv_exists fv \<Longrightarrow>
   loadAndEmit host path fv ws = (ws, [WatcherLog ''[watcher] tools.json does not exist''])"
  by (simp add: loadAndEmit_def)

lemma parseToolsJson_absent:
  "\<not> fv_exists fv \<Longrightarrow>
   parseToolsJson host fv path =
     \<lparr>pr_success = False, pr_config = None, pr_errors = Some [''File not found: '' @ path]\<rparr>"
  by (simp add: parseToolsJson_def)

text \<open>
  C3, as the code has it. A load fails when the file is not there, cannot be read, is
  not JSON, or does not pass the schema. In each case neither \<^verbatim>\<open>lastConfig\<close> nor the
  registry changes and no \<^verbatim>\<open>'update'\<close> is emitted. When the file exists, the watcher
  emits one \<^verbatim>\<open>'error'\<close> event whose message carries the loader's error list, which the
  listener of \<^verbatim>\<open>'error'\<close> writes to the log. When the file does not exist,
  \<^verbatim>\<open>loadAndEmit\<close> returns before it calls the loader and emits no event. A poll tick
  sets a reload off when it sees the file with a new modification time; the same holds
  for that reload.
\<close>

theorem failed_reload_keeps_last_good:
  "\<not> pr_success (parseToolsJson host fv path) \<longrightarrow>
     (\<exists>errs. pr_errors (parseToolsJson host fv path) = Some errs
        \<and> events (snd (loadAndEmit host path fv ws))
            = (if fv_exists fv
               then [EmitError (''Failed to parse tools.json: '' @ join_with '', '' errs)]
               else [])
        \<and> events (tr_watcher (snd (step host path (Load fv) sys)))
            = (if fv_exists fv
               then [EmitError (''Failed to parse tools.json: '' @ join_with '', '' errs)]
               else []))
     \<and> lastConfig (fst (loadAndEmit host path fv ws)) = lastConfig ws
     \<and> lastConfig (sys_watcher (fst (step host path (Load fv) sys)))
         = lastConfig (sys_watcher sys)
     \<and> sys_registry (fst (step host path (Load fv) sys)) = sys_registry sys
     \<and> update_events (tr_registry (snd (step host path (Load fv) sys))) = []
     \<and> (fv_exists fv \<and> fv_mtime fv = Some mtime \<and> mtime \<noteq> lastMtime (sys_watcher sys) \<longrightarrow>
          events (tr_watcher (snd (step host path (PollTick fv) sys)))
            = [EmitError (parse_failure_message (pr_errors (parseToolsJson host fv path)))]
          \<and> lastConfig (sys_watcher (fst (step host path (PollTick fv) sys)))
              = lastConfig (sys_watcher sys)
          \<and> sys_registry (fst (step host path (PollTick fv) sys)) = sys_registry sys
          \<and> update_events (tr_registry (snd (step host path (PollTick fv) sys))) = [])"
proof (intro impI)
  assume fail: "\<not> pr_success (parseToolsJson host fv path)"
  from parse_failure_has_errors [OF fail]
  obtain errs where errs: "pr_errors (parseToolsJson host fv path) = Some errs" by blast
  have msg: "parse_failure_message (Some errs)
               = ''Failed to parse tools.json: '' @ join_with '', '' errs"
    by (simp add: parse_failure_message_def)
  have load: "events (snd (loadAndEmit host path fv ws))
                = (if fv_exists fv
                   then [EmitError (''Failed to parse tools.json: '' @ join_with '', '' errs)]
                   else [])"
  proof (cases "fv_exists fv")
    case True
    then show ?thesis by (simp add: loadAndEmit_failure [OF True fail] errs msg)
  next
    case False
    then show ?thesis by (simp add: loadAndEmit_absent)
  qed
  have load_sys: "events (tr_watcher (snd (step host path (Load fv) sys)))
                = (if fv_exists fv
                   then [EmitError (''Failed to parse tools.json: '' @ join_with '', '' errs)]
                   else [])"
  proof (cases "fv_exists fv")
    case True
    then show ?thesis
      by (simp add: step_load_failure [OF True fail] loadAndEmit_failure [OF True fail]
                    errs msg)
  next
    case False
    then show ?thesis by (simp add: step_load_absent absent_def)
  qed
  have keep: "lastConfig (fst (loadAndEmit host path fv ws)) = lastConfig ws" for ws
  proof (cases "fv_exists fv")
    case True
    then show ?thesis by (rule loadAndEmit_failure_lastConfig [OF _ fail])
  next
    case False
    then show ?thesis by (simp add: loadAndEmit_absent)
  qed
  have keep_sys: "lastConfig (sys_watcher (fst (step host path (Load fv) sys)))
                    = lastConfig (sys_watcher sys)"
  proof (cases "fv_exists fv")
    case True
    then show ?thesis by (simp add: step_load_failure [OF True fail] keep)
  next
    case False
    then show ?thesis by (simp add: step_load_absent absent_def)
  qed
  have reg: "sys_registry (fst (step host path (Load fv) sys)) = sys_registry sys"
  proof (cases "fv_exists fv")
    case True
    then show ?thesis by (simp add: step_load_failure [OF True fail])
  next
    case False
    then show ?thesis by (simp add: step_load_absent absent_def)
  qed
  have quiet: "update_events (tr_registry (snd (step host path (Load fv) sys))) = []"
  proof (cases "fv_exists fv")
    case True
    then show ?thesis by (simp add: step_load_failure [OF True fail])
  next
    case False
    then show ?thesis by (simp add: step_load_absent absent_def)
  qed
  have by_poll: "events (tr_watcher (snd (step host path (PollTick fv) sys)))
            = [EmitError (parse_failure_message (pr_errors (parseToolsJson host fv path)))]
          \<and> lastConfig (sys_watcher (fst (step host path (PollTick fv) sys)))
              = lastConfig (sys_watcher sys)
          \<and> sys_registry (fst (step host path (PollTick fv) sys)) = sys_registry sys
          \<and> update_events (tr_registry (snd (step host path (PollTick fv) sys))) = []"
    if "fv_exists fv" "fv_mtime fv = Some mtime" "mtime \<noteq> lastMtime (sys_watcher sys)"
    by (simp add: step_poll_failure [OF that(1) fail that(2,3)])
  show "(\<exists>errs. pr_errors (parseToolsJson host fv path) = Some errs
        \<and> events (snd (loadAndEmit host path fv ws))
            = (if fv_exists fv
               then [EmitError (''Failed to parse tools.json: '' @ join_with '', '' errs)]
               else [])
        \<and> events (tr_watcher (snd (step host path (Load fv) sys)))
            = (if fv_exists fv
               then [EmitError (''Failed to parse tools.json: '' @ join_with '', '' errs)]
               else []))
     \<and> lastConfig (fst (loadAndEmit host path fv ws)) = lastConfig ws
     \<and> lastConfig (sys_watcher (fst (step host path (Load fv) sys)))
         = lastConfig (sys_watcher sys)
     \<and> sys_registry (fst (step host path (Load fv) sys)) = sys_registry sys
     \<and> update_events (tr_registry (snd (step host path (Load fv) sys))) = []
     \<and> (fv_exists fv \<and> fv_mtime fv = Some mtime \<and> mtime \<noteq> lastMtime (sys_watcher sys) \<longrightarrow>
          events (tr_watcher (snd (step host path (PollTick fv) sys)))
            = [EmitError (parse_failure_message (pr_errors (parseToolsJson host fv path)))]
          \<and> lastConfig (sys_watcher (fst (step host path (PollTick fv) sys)))
              = lastConfig (sys_watcher sys)
          \<and> sys_registry (fst (step host path (PollTick fv) sys)) = sys_registry sys
          \<and> update_events (tr_registry (snd (step host path (PollTick fv) sys))) = [])"
    using errs load load_sys keep keep_sys reg quiet by_poll by blast
qed

theorem failed_reload_keeps_last_good_witness:
  "\<not> pr_success (parseToolsJson demo_host view_cut demo_path)
   \<and> \<not> pr_success (parseToolsJson demo_host view_v2 demo_path)
   \<and> \<not> pr_success (parseToolsJson demo_host view_gone demo_path)
   \<and> events (tr_watcher (snd (step demo_host demo_path (Load view_cut) system_loaded)))
       = [EmitError
            ''Failed to parse tools.json: Invalid JSON: Unexpected end of JSON input'']
   \<and> events (tr_watcher (snd (step demo_host demo_path (PollTick view_v2) system_loaded)))
       = [EmitError
            ''Failed to parse tools.json: /version: must be equal to one of the allowed values'']
   \<and> events (tr_watcher (snd (step demo_host demo_path (Load view_gone) system_loaded))) = []
   \<and> lastConfig (sys_watcher (fst (step demo_host demo_path (Load view_cut) system_loaded)))
       = Some config_ab
   \<and> lastConfig (sys_watcher (fst (step demo_host demo_path (Load view_gone) system_loaded)))
       = Some config_ab
   \<and> sys_registry (fst (step demo_host demo_path (Load view_cut) system_loaded))
       = [(''a'', tool_a), (''b'', tool_b)]
   \<and> sys_registry (fst (step demo_host demo_path (PollTick view_v2) system_loaded))
       = [(''a'', tool_a), (''b'', tool_b)]
   \<and> sys_registry (fst (step demo_host demo_path (Load view_gone) system_loaded))
       = [(''a'', tool_a), (''b'', tool_b)]"
  using failed_reload_keeps_last_good
          [of demo_host view_cut demo_path "sys_watcher system_loaded" system_loaded 2000]
        failed_reload_keeps_last_good
          [of demo_host view_v2 demo_path "sys_watcher system_loaded" system_loaded 3000]
        failed_reload_keeps_last_good
          [of demo_host view_gone demo_path "sys_watcher system_loaded" system_loaded 0]
  by (simp add: parseToolsJson_def demo_host_def view_cut_def view_v2_def view_gone_def
                text_ab_def text_cut_def text_v2_def doc_ab_def doc_v2_def tool_doc_def
                Let_def system_loaded_def parse_failure_message_def validation_message_def
                truthy_def)

text \<open>
  C3 as stated fails: a reload that finds no file fails to load, the loader's error list
  says so, and the watcher emits no \<^verbatim>\<open>'error'\<close> event: it writes a log line and
  nothing reaches the listeners.
\<close>

theorem failed_reload_of_absent_file_is_silent:
  "\<not> pr_success (parseToolsJson demo_host view_gone demo_path)
   \<and> pr_errors (parseToolsJson demo_host view_gone demo_path)
       = Some [''File not found: /proj/.mcp/tools.json'']
   \<and> tr_watcher (snd (step demo_host demo_path (Load view_gone) system_loaded))
       = [WatcherLog ''[watcher] tools.json does not exist'']
   \<and> events (tr_watcher (snd (step demo_host demo_path (Load view_gone) system_loaded))) = []
   \<and> tr_registry (snd (step demo_host demo_path (Load view_gone) system_loaded)) = []
   \<and> fst (step demo_host demo_path (Load view_gone) system_loaded) = system_loaded"
  by (simp add: step_def handle_def loadAndEmit_def parseToolsJson_def view_gone_def
                demo_path_def system_loaded_def)

section \<open>The watcher: deletion of the file\<close>

text \<open>
  C5, as the code has it. A deletion reaches the watcher as a poll tick that finds the
  file absent while a modification time is recorded, or as the \<^verbatim>\<open>'unlink'\<close> event of
  the file watcher. Each of the two emits \<^verbatim>\<open>'delete'\<close>, resets the watcher and
  leaves the registry empty. While the file stays absent, further poll ticks emit
  nothing and change nothing; so a deletion seen by poll ticks alone, or by the
  \<^verbatim>\<open>'unlink'\<close> event first, gives exactly one \<^verbatim>\<open>'delete'\<close> event, however many ticks
  follow. In whatever order ticks and \<^verbatim>\<open>'unlink'\<close> events come while the file is
  gone, the registry is emptied once: it ends empty when the deletion is detected, and it
  emits one \<^verbatim>\<open>'update'\<close> (with the empty list) when it held tools, none otherwise.
  When the file is there again, the next load (or the next poll tick, which sees a
  modification time that is not the recorded one) reads it and, when it is valid,
  records it and puts its tools into the registry.
\<close>

theorem deletion_empties_registry:
  "(absent fv \<and> lastMtime (sys_watcher sys) \<noteq> 0 \<longrightarrow>
      step host path (PollTick fv) sys =
        (\<lparr>sys_watcher = \<lparr>lastMtime = 0, lastConfig = None\<rparr>, sys_registry = []\<rparr>,
         \<lparr>tr_watcher = [EmitDelete], tr_registry = snd (clear (sys_registry sys))\<rparr>))
   \<and> step host path Unlink sys =
        (\<lparr>sys_watcher = \<lparr>lastMtime = 0, lastConfig = None\<rparr>, sys_registry = []\<rparr>,
         \<lparr>tr_watcher = [WatcherLog ''[watcher] tools.json deleted'', EmitDelete],
          tr_registry = snd (clear (sys_registry sys))\<rparr>)
   \<and> (list_all absent fvs \<and> fvs \<noteq> [] \<and> lastMtime (sys_watcher sys) \<noteq> 0 \<longrightarrow>
        deletes (tr_watcher (snd (steps host path (map PollTick fvs) sys))) = 1
        \<and> sys_registry (fst (steps host path (map PollTick fvs) sys)) = [])
   \<and> (list_all absent fvs \<longrightarrow>
        deletes (tr_watcher (snd (steps host path (Unlink # map PollTick fvs) sys))) = 1
        \<and> sys_registry (fst (steps host path (Unlink # map PollTick fvs) sys)) = [])
   \<and> (list_all absent fvs \<and> lastMtime (sys_watcher sys) = 0 \<longrightarrow>
        steps host path (map PollTick fvs) sys = (sys, \<lparr>tr_watcher = [], tr_registry = []\<rparr>))
   \<and> (list_all finds_absent trigs \<longrightarrow>
        sys_registry (fst (steps host path trigs sys))
          = (if detected trigs sys then [] else sys_registry sys)
        \<and> update_events (tr_registry (snd (steps host path trigs sys)))
            = (if detected trigs sys \<and> sys_registry sys \<noteq> [] then [[]] else []))
   \<and> (fv_exists new \<and> fv_mtime new = Some mtime
        \<and> pr_success (parseToolsJson host new path)
        \<and> pr_config (parseToolsJson host new path) = Some config \<longrightarrow>
        fst (step host path (Load new) sys) =
          \<lparr>sys_watcher = \<lparr>lastMtime = mtime, lastConfig = Some config\<rparr>,
           sys_registry = populate [] (cfg_tools config)\<rparr>
        \<and> events (tr_watcher (snd (step host path (Load new) sys))) = [EmitChange config]
        \<and> (mtime \<noteq> lastMtime (sys_watcher sys) \<longrightarrow>
             fst (step host path (PollTick new) sys) =
               \<lparr>sys_watcher = \<lparr>lastMtime = mtime, lastConfig = Some config\<rparr>,
                sys_registry = populate [] (cfg_tools config)\<rparr>
             \<and> events (tr_watcher (snd (step host path (PollTick new) sys)))
                 = [EmitChange config]))"
proof -
  have polls: "deletes (tr_watcher (snd (steps host path (map PollTick fvs) sys))) = 1
        \<and> sys_registry (fst (steps host path (map PollTick fvs) sys)) = []"
    if "list_all absent fvs" "fvs \<noteq> []" "lastMtime (sys_watcher sys) \<noteq> 0"
    unfolding steps_polls_deleted [OF that] by (simp add: deletes_def)
  have unlink: "deletes (tr_watcher (snd (steps host path (Unlink # map PollTick fvs) sys))) = 1
        \<and> sys_registry (fst (steps host path (Unlink # map PollTick fvs) sys)) = []"
    if "list_all absent fvs"
    unfolding steps_unlink_then_polls [OF that] by (simp add: deletes_def)
  have load: "fst (step host path (Load new) sys) =
          \<lparr>sys_watcher = \<lparr>lastMtime = mtime, lastConfig = Some config\<rparr>,
           sys_registry = populate [] (cfg_tools config)\<rparr>
        \<and> events (tr_watcher (snd (step host path (Load new) sys))) = [EmitChange config]"
    if "fv_exists new" "fv_mtime new = Some mtime" "pr_success (parseToolsJson host new path)"
       "pr_config (parseToolsJson host new path) = Some config"
    by (simp add: step_load_created [OF that])
  have tick: "fst (step host path (PollTick new) sys) =
               \<lparr>sys_watcher = \<lparr>lastMtime = mtime, lastConfig = Some config\<rparr>,
                sys_registry = populate [] (cfg_tools config)\<rparr>
             \<and> events (tr_watcher (snd (step host path (PollTick new) sys)))
                 = [EmitChange config]"
    if "fv_exists new" "fv_mtime new = Some mtime" "pr_success (parseToolsJson host new path)"
       "pr_config (parseToolsJson host new path) = Some config"
       "mtime \<noteq> lastMtime (sys_watcher sys)"
    by (simp add: step_poll_created [OF that(1,2,5,3,4)])
  have once: "sys_registry (fst (steps host path trigs sys))
          = (if detected trigs sys then [] else sys_registry sys)
        \<and> update_events (tr_registry (snd (steps host path trigs sys)))
            = (if detected trigs sys \<and> sys_registry sys \<noteq> [] then [[]] else [])"
    if "list_all finds_absent trigs"
    using steps_absence [OF that, of host path sys]
    by (simp add: update_events_clear system_reset_def)
  show ?thesis
    using step_poll_deleted [of fv sys host path] step_unlink [of host path sys]
          polls unlink steps_polls_still_absent [of fvs sys host path] once load tick
    by blast
qed

theorem deletion_empties_registry_witness:
  "list_all absent [view_gone, view_gone, view_gone]
   \<and> lastMtime (sys_watcher system_loaded) \<noteq> 0
   \<and> deletes (tr_watcher (snd (steps demo_host demo_path
                 (map PollTick [view_gone, view_gone, view_gone]) system_loaded))) = 1
   \<and> sys_registry (fst (steps demo_host demo_path
                 (map PollTick [view_gone, view_gone, view_gone]) system_loaded)) = []
   \<and> deletes (tr_watcher (snd (steps demo_host demo_path
                 (Unlink # map PollTick [view_gone, view_gone, view_gone]) system_loaded))) = 1
   \<and> fst (step demo_host demo_path (PollTick view_ab) system_started)
       = \<lparr>sys_watcher = \<lparr>lastMtime = 1000, lastConfig = Some config_ab\<rparr>,
          sys_registry = populate [] (cfg_tools config_ab)\<rparr>
   \<and> fst (step demo_host demo_path (Load view_ab) system_started)
       = \<lparr>sys_watcher = \<lparr>lastMtime = 1000, lastConfig = Some config_ab\<rparr>,
          sys_registry = populate [] (cfg_tools config_ab)\<rparr>
   \<and> populate [] (cfg_tools config_ab) = [(''a'', tool_a), (''b'', tool_b)]
   \<and> list_all finds_absent [PollTick view_gone, Unlink, PollTick view_gone]
   \<and> detected [PollTick view_gone, Unlink, PollTick view_gone] system_loaded
   \<and> sys_registry (fst (steps demo_host demo_path
                          [PollTick view_gone, Unlink, PollTick view_gone] system_loaded)) = []
   \<and> update_events (tr_registry (snd (steps demo_host demo_path
                          [PollTick view_gone, Unlink, PollTick view_gone] system_loaded)))
       = [[]]"
proof -
  have both: "list_all finds_absent [PollTick view_gone, Unlink, PollTick view_gone]"
    by (simp add: absent_def view_gone_def)
  have seen: "detected [PollTick view_gone, Unlink, PollTick view_gone] system_loaded"
    by (simp add: detected_def)
  have held: "sys_registry system_loaded \<noteq> []"
    by (simp add: system_loaded_def)
  have gone: "list_all absent [view_gone, view_gone, view_gone]"
    by (simp add: absent_def view_gone_def)
  have some: "[view_gone, view_gone, view_gone] \<noteq> []"
    by simp
  have recorded: "lastMtime (sys_watcher system_loaded) \<noteq> 0"
    by (simp add: system_loaded_def)
  have there: "fv_exists view_ab" "fv_mtime view_ab = Some 1000"
    by (simp_all add: view_ab_def)
  have valid: "pr_success (parseToolsJson demo_host view_ab demo_path)"
    "pr_config (parseToolsJson demo_host view_ab demo_path) = Some config_ab"
    by (simp_all add: parseToolsJson_def demo_host_def view_ab_def Let_def)
  have fresh: "(1000 :: real) \<noteq> lastMtime (sys_watcher system_started)"
    by (simp add: system_started_def)
  have tools: "populate [] (cfg_tools config_ab) = [(''a'', tool_a), (''b'', tool_b)]"
    by (simp add: config_ab_def tool_a_def tool_b_def)
  note deleted =
    deletion_empties_registry
      [of view_gone system_loaded demo_host demo_path "[view_gone, view_gone, view_gone]"
          "[PollTick view_gone, Unlink, PollTick view_gone]" view_ab 1000 config_ab]
  note created =
    deletion_empties_registry
      [of view_gone system_started demo_host demo_path "[]" "[]" view_ab 1000 config_ab]
  have once: "sys_registry (fst (steps demo_host demo_path
                          [PollTick view_gone, Unlink, PollTick view_gone] system_loaded)) = []
      \<and> update_events (tr_registry (snd (steps demo_host demo_path
                          [PollTick view_gone, Unlink, PollTick view_gone] system_loaded)))
          = [[]]"
    using deleted both seen held by presburger
  show ?thesis
    using deleted created gone some recorded there valid fresh tools both seen once by blast
qed

text \<open>
  C5 as stated fails: the notification does not fire exactly once per deletion. With the
  file loaded and then deleted, a poll tick that sees the file gone emits \<^verbatim>\<open>'delete'\<close>,
  and the \<^verbatim>\<open>'unlink'\<close> event of the file watcher for the same deletion, arriving
  after the tick, emits it again.
\<close>

theorem deletion_reported_twice:
  "fst (step demo_host demo_path (Load view_ab) system_started) = system_loaded
   \<and> tr_watcher (snd (steps demo_host demo_path [PollTick view_gone, Unlink] system_loaded))
       = [EmitDelete, WatcherLog ''[watcher] tools.json deleted'', EmitDelete]
   \<and> deletes (tr_watcher (snd (steps demo_host demo_path [PollTick view_gone, Unlink]
                                   system_loaded))) = 2"
  by (simp add: watch_eval show_nat.simps digit_char_def)

end

